theory Spec2Isabelle
  imports Main "HOL-Library.Word"
begin

unbundle bit_operations_syntax

section \<open>The guard-mode zone allocator (xnu/osfmk/kern/gzalloc.c)\<close>

text \<open>
  The model follows the LP64 kernel: \<open>vm_offset_t\<close>, \<open>vm_size_t\<close>, \<open>uintptr_t\<close> and
  every pointer are 64-bit words, \<open>uint32_t\<close> is a 32-bit word and \<open>char\<close> an 8-bit
  word. Arithmetic on words wraps around as the C arithmetic on unsigned types does.
  A \<open>zone_t\<close> is the address of a zone structure.
\<close>

type_synonym vm_offset_t = "64 word"
type_synonym vm_size_t = "64 word"
type_synonym zone_t = "64 word"
type_synonym memory = "vm_offset_t \<Rightarrow> 8 word"

subsection \<open>Constants and page arithmetic\<close>

definition GZALLOC_MIN_DEFAULT :: "32 word" where
  "GZALLOC_MIN_DEFAULT = 1024"

definition GZDEADZONE :: zone_t where
  "GZDEADZONE = 0xDEAD201E"

definition GZALLOC_SIGNATURE :: "32 word" where
  "GZALLOC_SIGNATURE = 0xABADCAFE"

definition GZFC_DEFAULT_SIZE :: "32 word" where
  "GZFC_DEFAULT_SIZE = 1536"

definition gzalloc_fill_pattern :: "8 word" where
  "gzalloc_fill_pattern = 0x67"

definition ZONE_NULL :: zone_t where
  "ZONE_NULL = 0"

text \<open>
  \<open>GZHEADER_SIZE\<close> is \<open>sizeof(gzhdr_t)\<close>: a pointer and two \<open>uint32_t\<close>, 16 bytes on LP64.
  \<open>sizeof_gzh\<close> is \<open>sizeof(gzh)\<close>, the size of a pointer to the header: 8 bytes.
\<close>

definition GZHEADER_SIZE :: vm_size_t where
  "GZHEADER_SIZE = 16"

definition sizeof_gzh :: vm_size_t where
  "sizeof_gzh = 8"

text \<open>
  Modelled from the spec: \<open>PAGE_SIZE\<close> is a macro of \<open>mach/vm_param.h\<close>, which is not
  among the sources. The spec calls the unit \<open>page\<close>; the value is that of a 4 KiB page.
\<close>

definition PAGE_SIZE :: vm_size_t where
  "PAGE_SIZE = 4096"

text \<open>Modelled from the spec: \<open>PAGE_MASK\<close> (\<open>mach/vm_param.h\<close>), the page size minus one.\<close>

definition PAGE_MASK :: vm_size_t where
  "PAGE_MASK = PAGE_SIZE - 1"

text \<open>
  Modelled from the spec: \<open>round_page\<close> (\<open>mach/vm_param.h\<close>) rounds up to a multiple of
  the page size.
\<close>

definition round_page :: "vm_offset_t \<Rightarrow> vm_offset_t" where
  "round_page x = (x + PAGE_MASK) AND NOT PAGE_MASK"

text \<open>
  Modelled from the spec: \<open>trunc_page\<close> and \<open>trunc_page_64\<close> (\<open>mach/vm_param.h\<close>) round
  down to a multiple of the page size.
\<close>

definition trunc_page :: "vm_offset_t \<Rightarrow> vm_offset_t" where
  "trunc_page x = x AND NOT PAGE_MASK"

text \<open>
  The two sizes that \<open>gzalloc_alloc\<close>, \<open>gzalloc_free\<close> and
  \<open>gzalloc_empty_free_cache\<close> compute first, from the element size of the zone:
  \<open>rounded_size = round_page(zone_elem_size(zone) + GZHEADER_SIZE)\<close> and
  \<open>residue = rounded_size - zone_elem_size(zone)\<close>.
\<close>

definition rounded_size :: "vm_size_t \<Rightarrow> vm_offset_t" where
  "rounded_size elem_size = round_page (elem_size + GZHEADER_SIZE)"

definition residue :: "vm_size_t \<Rightarrow> vm_offset_t" where
  "residue elem_size = rounded_size elem_size - elem_size"

text \<open>
  \<open>OSAddAtomic64((SInt32) x, &counter)\<close>: the 64-bit amount is cut to 32 bits, read as a
  signed number and widened again before it is added. \<open>OSSubAtomic64_SInt32\<close> is the
  call \<open>OSAddAtomic64(-((SInt32) x), &counter)\<close>.
\<close>

definition SInt32 :: "64 word \<Rightarrow> 64 word" where
  "SInt32 x = scast (ucast x :: 32 word)"

definition OSAddAtomic64_SInt32 :: "64 word \<Rightarrow> 64 word \<Rightarrow> 64 word" where
  "OSAddAtomic64_SInt32 x counter = counter + SInt32 x"

definition OSSubAtomic64_SInt32 :: "64 word \<Rightarrow> 64 word \<Rightarrow> 64 word" where
  "OSSubAtomic64_SInt32 x counter = counter + (- SInt32 x)"

subsection \<open>Byte-addressed memory and the header\<close>

text \<open>
  Memory is a flat array of bytes, read and written little-endian. The model does not
  track which pages are mapped: a protection change or an unmapping is recorded as a
  call into the arena (see \<open>arena_call\<close> below), and reads never fault.
\<close>

definition load32 :: "memory \<Rightarrow> vm_offset_t \<Rightarrow> 32 word" where
  "load32 m a =
     ucast (m a) OR push_bit 8 (ucast (m (a + 1))) OR
     push_bit 16 (ucast (m (a + 2))) OR push_bit 24 (ucast (m (a + 3)))"

definition load64 :: "memory \<Rightarrow> vm_offset_t \<Rightarrow> 64 word" where
  "load64 m a = ucast (load32 m a) OR push_bit 32 (ucast (load32 m (a + 4)))"

definition store32 :: "memory \<Rightarrow> vm_offset_t \<Rightarrow> 32 word \<Rightarrow> memory" where
  "store32 m a v =
     m(a := ucast v, a + 1 := ucast (drop_bit 8 v),
       a + 2 := ucast (drop_bit 16 v), a + 3 := ucast (drop_bit 24 v))"

definition store64 :: "memory \<Rightarrow> vm_offset_t \<Rightarrow> 64 word \<Rightarrow> memory" where
  "store64 m a v = store32 (store32 m a (ucast v)) (a + 4) (ucast (drop_bit 32 v))"

definition bzero :: "memory \<Rightarrow> vm_offset_t \<Rightarrow> vm_size_t \<Rightarrow> memory" where
  "bzero m a n = (\<lambda>x. if x - a < n then 0 else m x)"

text \<open>
  \<open>struct gzalloc_header\<close>: \<open>gzone\<close> at offset 0, \<open>gzsize\<close> at offset 8, \<open>gzsig\<close> at
  offset 12.
\<close>

record gzhdr_t =
  gzone :: zone_t
  gzsize :: "32 word"
  gzsig :: "32 word"

definition read_gzhdr :: "memory \<Rightarrow> vm_offset_t \<Rightarrow> gzhdr_t" where
  "read_gzhdr m gzh =
     \<lparr>gzone = load64 m gzh, gzsize = load32 m (gzh + 8), gzsig = load32 m (gzh + 12)\<rparr>"

definition write_gzhdr :: "memory \<Rightarrow> vm_offset_t \<Rightarrow> gzhdr_t \<Rightarrow> memory" where
  "write_gzhdr m gzh h =
     store32 (store32 (store64 m gzh (gzone h)) (gzh + 8) (gzsize h)) (gzh + 12) (gzsig h)"

subsection \<open>Zones, the globals of gzalloc.c and the environment\<close>

text \<open>
  \<open>struct zone\<close> is declared in \<open>kern/zalloc_internal.h\<close>, outside the sources; the
  record holds the fields gzalloc.c touches. \<open>z_elem_size\<close> is the value
  \<open>zone_elem_size(zone)\<close> returns, a \<open>vm_size_t\<close>. The free cache \<open>gz.gzfc\<close> is the array
  of \<open>gzfc_size\<close> addresses; a zone that has none (a null pointer) has the empty list.
\<close>

record gzalloc_data =
  gzfc_index :: "32 word"
  gzfc :: "vm_offset_t list"

record zone =
  z_self :: zone_t
  z_name :: string
  z_elem_size :: vm_size_t
  z_gzalloc_tracked :: bool
  gz :: gzalloc_data
  z_elems_free :: "32 word"
  z_wired_cur :: "32 word"
  z_va_cur :: "32 word"

record zone_stats =
  zs_mem_allocated :: "64 word"
  zs_mem_freed :: "64 word"

record kmem_range =
  min_address :: vm_offset_t
  max_address :: vm_offset_t

record vm_map_entry =
  vme_start :: vm_offset_t
  vme_end :: vm_offset_t
  vme_atomic :: bool

text \<open>
  The calls into the arena \<open>gzalloc_map\<close>, in the order they are made:
  \<open>kernel_memory_allocate(gzalloc_map, &addr, size, ...)\<close> with the guard flag it is given
  (\<open>gzalloc_guard\<close> is \<open>KMA_GUARD_LAST\<close> or \<open>KMA_GUARD_FIRST\<close>),
  \<open>vm_map_protect(gzalloc_map, start, end, prot, FALSE)\<close> and
  \<open>kmem_free(gzalloc_map, addr, size)\<close>. Calls on \<open>kernel_map\<close> only provide the storage
  of the free-cache arrays, which the model holds as lists, and are not recorded.
\<close>

datatype vm_prot_t = VM_PROT_NONE | VM_PROT_READ

datatype kma_guard = KMA_GUARD_FIRST | KMA_GUARD_LAST

datatype arena_call =
  Arena_allocate vm_offset_t vm_size_t kma_guard
  | Arena_protect vm_offset_t vm_offset_t vm_prot_t
  | Arena_free vm_offset_t vm_size_t

datatype panic =
  Reserve_exhausted
  | Invalid_address vm_offset_t vm_offset_t vm_size_t
  | Double_free vm_offset_t "32 word" "32 word"
  | Signature_mismatch vm_offset_t "32 word"
  | Mismatched_zone zone_t zone_t vm_offset_t
  | Mismatched_size zone_t "32 word" "32 word" vm_offset_t
  | Fill_mismatch vm_offset_t vm_offset_t "8 word"
  | Protect_failed vm_offset_t int
  | No_map_entry vm_offset_t
  | Signature_missing vm_offset_t
  | Zone_mismatch zone_t
  | Assertion_failed
  | Bad_access

text \<open>
  The state: the globals of gzalloc.c under their own names, followed by what the
  functions read from their environment: \<open>vm_page_zone\<close>, \<open>startup_phase\<close>, the value of
  \<open>get_preemption_level()\<close>, the zone structures by address, the per-CPU statistics
  that \<open>zpercpu_get(zstats)\<close> selects (by the address \<open>zstats\<close>), memory, the entries of
  \<open>gzalloc_map\<close> that \<open>vm_map_lookup_entry\<close> searches, the value \<open>vm_map_protect\<close>
  returns for a range starting at an address, and the calls made into the arena so far.
\<close>

record gz_state =
  gzalloc_mode :: bool
  pdzalloc_count :: "32 word"
  pdzfree_count :: "32 word"
  gzalloc_min :: "32 word"
  gzalloc_max :: "32 word"
  gzalloc_allocated :: "64 word"
  gzalloc_freed :: "64 word"
  gzalloc_early_alloc :: "64 word"
  gzalloc_early_free :: "64 word"
  gzalloc_wasted :: "64 word"
  gzalloc_uf_mode :: bool
  gzalloc_consistency_checks :: bool
  gzalloc_dfree_check :: bool
  gzalloc_prot :: vm_prot_t
  gzalloc_guard :: kma_guard
  gzfc_size :: "32 word"
  gzalloc_range :: kmem_range
  gzalloc_reserve :: vm_offset_t
  gzalloc_reserve_size :: vm_size_t
  gztrackzone :: zone_t
  gznamedzone :: string
  vm_page_zone :: zone_t
  startup_phase :: nat
  preemption_level :: int
  zones :: "zone_t \<Rightarrow> zone option"
  percpu_stats :: "64 word \<Rightarrow> zone_stats"
  mem :: memory
  gzalloc_map_entries :: "vm_map_entry list"
  vm_map_protect_kr :: "vm_offset_t \<Rightarrow> int"
  arena_calls :: "arena_call list"

text \<open>
  Modelled from the spec: \<open>startup_phase\<close> and \<open>STARTUP_SUB_KMEM\<close> belong to the startup
  subsystem (\<open>kern/startup.h\<close>, not among the sources). The spec has two phases, before
  and after the VM is ready; the phases are numbered and only their order is used.
\<close>

definition STARTUP_SUB_KMEM :: nat where
  "STARTUP_SUB_KMEM = 6"

text \<open>
  Modelled from the spec: \<open>Z_NOWAIT\<close> (\<open>kern/zalloc.h\<close>, not among the sources) is the flag
  that forbids waiting.
\<close>

definition Z_NOWAIT :: "32 word" where
  "Z_NOWAIT = 1"

text \<open>
  Modelled from the spec: \<open>KERN_SUCCESS\<close> (\<open>mach/kern_return.h\<close>, not among the sources) is
  what a call into the VM returns when it succeeded.
\<close>

definition KERN_SUCCESS :: int where
  "KERN_SUCCESS = 0"

text \<open>
  Modelled from the spec: \<open>kmem_range_contains\<close> (\<open>vm/vm_kern.h\<close>) is the point-in-range
  test against the arena bounds.
\<close>

definition kmem_range_contains :: "kmem_range \<Rightarrow> vm_offset_t \<Rightarrow> bool" where
  "kmem_range_contains r a = (min_address r \<le> a \<and> a < max_address r)"

text \<open>
  Modelled from the spec: \<open>vm_map_lookup_entry\<close> (\<open>vm/vm_map.h\<close>) yields the map entry
  that covers an address, if there is one.
\<close>

definition vm_map_lookup_entry :: "vm_map_entry list \<Rightarrow> vm_offset_t \<Rightarrow> vm_map_entry option" where
  "vm_map_lookup_entry entries a = find (\<lambda>e. vme_start e \<le> a \<and> a < vme_end e) entries"

text \<open>
  Modelled from the spec: \<open>track_this_zone\<close> (\<open>kern/zalloc.c\<close>, not among the sources)
  compares a zone name with the configured name; a period in the configured name
  matches a space in the zone name.
\<close>

fun track_this_zone :: "string \<Rightarrow> string \<Rightarrow> bool" where
  "track_this_zone [] [] = True"
| "track_this_zone (zc # zonename) (lc # logname) =
     ((zc = lc \<or> (zc = CHR '' '' \<and> lc = CHR ''.'')) \<and> track_this_zone zonename logname)"
| "track_this_zone _ _ = False"

subsection \<open>gzalloc_enabled and gzalloc_zone_init\<close>

definition gzalloc_enabled :: "gz_state \<Rightarrow> bool" where
  "gzalloc_enabled st = gzalloc_mode st"

text \<open>
  \<open>gzalloc_zone_init(z)\<close>. The array of the free cache is zero-filled in both branches
  (\<open>bzero\<close> of the carved reserve, \<open>KMA_ZERO\<close>).
\<close>

definition gzalloc_zone_init :: "gz_state \<Rightarrow> zone_t \<Rightarrow> panic + gz_state" where
  "gzalloc_zone_init st z =
     (if \<not> gzalloc_mode st then Inr st
      else
       (case zones st z of
        None \<Rightarrow> Inl Bad_access
      | Some zr \<Rightarrow>
          let zr1 = zr\<lparr>gz := \<lparr>gzfc_index = 0, gzfc = []\<rparr>\<rparr>;
              st1 = (if track_this_zone (z_name zr1) (gznamedzone st)
                     then st\<lparr>gztrackzone := z\<rparr> else st);
              tracked = (z = gztrackzone st1 \<or>
                         (z_elem_size zr1 \<ge> ucast (gzalloc_min st1) \<and>
                          z_elem_size zr1 \<le> ucast (gzalloc_max st1)));
              zr2 = zr1\<lparr>z_gzalloc_tracked := tracked\<rparr>
          in if gzfc_size st1 \<noteq> 0 \<and> tracked then
               let gzfcsz = round_page (8 * ucast (gzfc_size st1));
                   zr3 = zr2\<lparr>gz := \<lparr>gzfc_index = 0,
                                      gzfc = replicate (unat (gzfc_size st1)) 0\<rparr>\<rparr>
               in if startup_phase st1 < STARTUP_SUB_KMEM then
                    (if gzalloc_reserve_size st1 < gzfcsz then Inl Reserve_exhausted
                     else Inr (st1\<lparr>gzalloc_reserve := gzalloc_reserve st1 + gzfcsz,
                                   gzalloc_reserve_size := gzalloc_reserve_size st1 - gzfcsz,
                                   zones := (zones st1)(z \<mapsto> zr3)\<rparr>))
                  else Inr (st1\<lparr>zones := (zones st1)(z \<mapsto> zr3)\<rparr>)
             else Inr (st1\<lparr>zones := (zones st1)(z \<mapsto> zr2)\<rparr>)))"

subsection \<open>gzalloc_empty_free_cache\<close>

text \<open>
  The loop that frees the cached elements, over the snapshot \<open>gzfc_copy\<close>:
  \<open>for (index = 0; index < gzfc_size; index++)\<close>. It carries the state (the arena calls
  and the counters \<open>gzalloc_freed\<close>, \<open>gzalloc_wasted\<close>) and the local \<open>freed_elements\<close>.
  A read past the end of the array is \<open>Bad_access\<close>.
\<close>

function free_cached_elements ::
  "gz_state \<Rightarrow> vm_size_t \<Rightarrow> vm_offset_t list \<Rightarrow> 32 word \<Rightarrow> 32 word \<Rightarrow> 32 word
     \<Rightarrow> panic + (gz_state \<times> 32 word)" where
  "free_cached_elements st elem_size gzfc_copy n index freed_elements =
     (if index < n then
        (if unat index < length gzfc_copy then
           (let free_addr = gzfc_copy ! unat index;
                rounded = rounded_size elem_size
            in if free_addr \<noteq> 0 \<and> kmem_range_contains (gzalloc_range st) free_addr then
                 free_cached_elements
                   (st\<lparr>arena_calls := arena_calls st @ [Arena_free free_addr (rounded + PAGE_SIZE)],
                       gzalloc_freed := OSAddAtomic64_SInt32 rounded (gzalloc_freed st),
                       gzalloc_wasted :=
                         OSSubAtomic64_SInt32 (rounded - elem_size) (gzalloc_wasted st)\<rparr>)
                   elem_size gzfc_copy n (index + 1) (freed_elements + 1)
               else free_cached_elements st elem_size gzfc_copy n (index + 1) freed_elements)
         else Inl Bad_access)
      else Inr (st, freed_elements))"
  by pat_completeness auto
termination
  apply (relation "measure (\<lambda>(st, elem_size, gzfc_copy, n, index, freed_elements).
                     unat n - unat index)")
    apply simp
   apply simp
   apply unat_arith
  apply simp
  apply unat_arith
  done

declare free_cached_elements.simps [simp del]

definition gzalloc_empty_free_cache :: "gz_state \<Rightarrow> zone_t \<Rightarrow> panic + gz_state" where
  "gzalloc_empty_free_cache st zone =
     (case zones st zone of
        None \<Rightarrow> Inl Bad_access
      | Some zr \<Rightarrow>
          if \<not> z_gzalloc_tracked zr then Inl Assertion_failed
          else
            let gzfc_copy = gzfc (gz zr);
                zr1 = zr\<lparr>gz := \<lparr>gzfc_index = 0,
                                  gzfc = replicate (length (gzfc (gz zr))) 0\<rparr>\<rparr>;
                st1 = st\<lparr>zones := (zones st)(zone \<mapsto> zr1)\<rparr>
            in (case free_cached_elements st1 (z_elem_size zr) gzfc_copy (gzfc_size st1) 0 0 of
                  Inl p \<Rightarrow> Inl p
                | Inr (st2, freed_elements) \<Rightarrow>
                    Inr (st2\<lparr>zones := (zones st2)(zone \<mapsto>
                           zr1\<lparr>z_elems_free := z_elems_free zr1 + freed_elements,
                               z_wired_cur := z_wired_cur zr1 - freed_elements\<rparr>)\<rparr>)))"

subsection \<open>gzalloc_free\<close>

text \<open>
  The double-free scan \<open>for (gd = 0; gd < gzfc_size; gd++)\<close>: the index of the first slot
  of the free cache that holds \<open>saddr\<close>, if there is one.
\<close>

function dfree_scan ::
  "vm_offset_t list \<Rightarrow> 32 word \<Rightarrow> vm_offset_t \<Rightarrow> 32 word \<Rightarrow> panic + 32 word option" where
  "dfree_scan fc n saddr gd =
     (if gd < n then
        (if unat gd < length fc then
           (if fc ! unat gd \<noteq> saddr then dfree_scan fc n saddr (gd + 1)
            else Inr (Some gd))
         else Inl Bad_access)
      else Inr None)"
  by pat_completeness auto
termination
  apply (relation "measure (\<lambda>(fc, n, saddr, gd). unat n - unat gd)")
   apply simp
  apply simp
  apply unat_arith
  done

declare dfree_scan.simps [simp del]

text \<open>
  The fill-pattern scan \<open>for (gzc = checkstart; gzc < checkend; gzc++)\<close>: the address of
  the first byte that differs from the fill pattern, if there is one.
\<close>

function fill_scan :: "memory \<Rightarrow> vm_offset_t \<Rightarrow> vm_offset_t \<Rightarrow> vm_offset_t option" where
  "fill_scan m gzc checkend =
     (if gzc < checkend then
        (if m gzc = gzalloc_fill_pattern then fill_scan m (gzc + 1) checkend else Some gzc)
      else None)"
  by pat_completeness auto
termination
  apply (relation "measure (\<lambda>(m, gzc, checkend). unat checkend - unat gzc)")
   apply simp
  apply simp
  apply unat_arith
  done

declare fill_scan.simps [simp del]

text \<open>The block \<open>if (gzfc_size && gzalloc_dfree_check)\<close>; \<open>None\<close> when it does not panic.\<close>

definition gzalloc_free_dfree_check ::
  "gz_state \<Rightarrow> zone_t \<Rightarrow> zone \<Rightarrow> vm_offset_t \<Rightarrow> panic option" where
  "gzalloc_free_dfree_check st zone zr saddr =
     (if gzfc_size st \<noteq> 0 \<and> gzalloc_dfree_check st then
        (if z_self zr \<noteq> zone then Some Assertion_failed
         else
           (case dfree_scan (gzfc (gz zr)) (gzfc_size st) saddr 0 of
              Inl p \<Rightarrow> Some p
            | Inr (Some gd) \<Rightarrow> Some (Double_free saddr (gzfc_index (gz zr)) gd)
            | Inr None \<Rightarrow> None))
      else None)"

text \<open>
  The bounds of the fill-pattern scan. In underflow mode \<open>checkstart\<close> is
  \<open>(uintptr_t) gzh + sizeof(gzh)\<close>, where \<open>gzh\<close> is a pointer.
\<close>

definition checkstart :: "gz_state \<Rightarrow> vm_offset_t \<Rightarrow> vm_offset_t \<Rightarrow> vm_offset_t" where
  "checkstart st addr gzh =
     (if gzalloc_uf_mode st then gzh + sizeof_gzh else trunc_page addr)"

definition checkend :: "gz_state \<Rightarrow> vm_offset_t \<Rightarrow> vm_offset_t \<Rightarrow> vm_offset_t" where
  "checkend st addr gzh =
     (if gzalloc_uf_mode st then (addr AND NOT PAGE_MASK) + PAGE_SIZE else gzh)"

text \<open>The block \<open>if (gzalloc_consistency_checks)\<close>; \<open>None\<close> when it does not panic.\<close>

definition gzalloc_free_consistency ::
  "gz_state \<Rightarrow> zone_t \<Rightarrow> zone \<Rightarrow> vm_offset_t \<Rightarrow> vm_offset_t \<Rightarrow> panic option" where
  "gzalloc_free_consistency st zone zr addr gzh =
     (if gzalloc_consistency_checks st then
        (let h = read_gzhdr (mem st) gzh in
         if gzsig h \<noteq> GZALLOC_SIGNATURE then Some (Signature_mismatch addr (gzsig h))
         else if gzone h \<noteq> zone \<and> gzone h \<noteq> GZDEADZONE
           then Some (Mismatched_zone zone (gzone h) addr)
         else if ucast (gzsize h) \<noteq> z_elem_size zr
           then Some (Mismatched_size zone (gzsize h) (ucast (z_elem_size zr)) addr)
         else
           (case fill_scan (mem st) (checkstart st addr gzh) (checkend st addr gzh) of
              Some gzc \<Rightarrow> Some (Fill_mismatch gzc addr (mem st gzc))
            | None \<Rightarrow> None))
      else None)"

text \<open>
  The insertion into the free cache, \<open>if (gzfc_size) { ... }\<close> under the comment "Insert
  newly freed element into the protected free element cache, and rotate out the LRU
  element": the value of \<open>free_addr\<close> and the zone afterwards, for the capacity
  \<open>n = gzfc_size\<close>. Without a free cache \<open>free_addr\<close> is \<open>saddr\<close>. An index outside the
  array is \<open>Bad_access\<close>.
\<close>

definition gzfc_insert :: "32 word \<Rightarrow> zone \<Rightarrow> vm_offset_t \<Rightarrow> panic + (vm_offset_t \<times> zone)" where
  "gzfc_insert n zr saddr =
     (if n \<noteq> 0 then
        (let idx = (if gzfc_index (gz zr) \<ge> n then 0 else gzfc_index (gz zr))
         in if unat idx < length (gzfc (gz zr))
            then Inr (gzfc (gz zr) ! unat idx,
                      zr\<lparr>gz := \<lparr>gzfc_index = idx + 1,
                                 gzfc = (gzfc (gz zr))[unat idx := saddr]\<rparr>\<rparr>)
            else Inl Bad_access)
      else Inr (saddr, zr))"

text \<open>
  The end of \<open>gzalloc_free\<close>, from \<open>if (free_addr)\<close> under the zone lock: the zone
  counters, the per-CPU statistics and the release of \<open>free_addr\<close> to the arena.
\<close>

definition gzalloc_free_account ::
  "gz_state \<Rightarrow> zone_t \<Rightarrow> 64 word \<Rightarrow> zone \<Rightarrow> vm_offset_t \<Rightarrow> gz_state" where
  "gzalloc_free_account st zone zstats zr free_addr =
     (let rounded = rounded_size (z_elem_size zr);
          zr1 = (if free_addr \<noteq> 0
                 then zr\<lparr>z_elems_free := z_elems_free zr + 1,
                         z_wired_cur := z_wired_cur zr - 1\<rparr>
                 else zr);
          stats = percpu_stats st zstats;
          st1 = st\<lparr>zones := (zones st)(zone \<mapsto> zr1),
                    percpu_stats := (percpu_stats st)
                      (zstats := stats\<lparr>zs_mem_freed := zs_mem_freed stats + rounded\<rparr>)\<rparr>
      in if free_addr \<noteq> 0
         then st1\<lparr>arena_calls := arena_calls st1 @ [Arena_free free_addr (rounded + PAGE_SIZE)],
                  gzalloc_freed := OSAddAtomic64_SInt32 rounded (gzalloc_freed st1),
                  gzalloc_wasted :=
                    OSSubAtomic64_SInt32 (rounded - z_elem_size zr) (gzalloc_wasted st1)\<rparr>
         else st1)"

text \<open>
  The part of \<open>gzalloc_free\<close> after the early return: the protection change when there
  is a free cache, then the insertion and the accounting above.
\<close>

definition gzalloc_free_release ::
  "gz_state \<Rightarrow> zone_t \<Rightarrow> 64 word \<Rightarrow> zone \<Rightarrow> vm_offset_t \<Rightarrow> panic + gz_state" where
  "gzalloc_free_release st zone zstats zr saddr =
     (let rounded = rounded_size (z_elem_size zr);
          kr = vm_map_protect_kr st saddr;
          st1 = (if gzfc_size st \<noteq> 0
                 then st\<lparr>arena_calls := arena_calls st @
                          [Arena_protect saddr (saddr + rounded + 1 * PAGE_SIZE) (gzalloc_prot st)]\<rparr>
                 else st)
      in if gzfc_size st \<noteq> 0 \<and> kr \<noteq> KERN_SUCCESS then Inl (Protect_failed saddr kr)
         else if z_self zr \<noteq> zone then Inl Assertion_failed
         else
           (case gzfc_insert (gzfc_size st1) zr saddr of
              Inl p \<Rightarrow> Inl p
            | Inr (free_addr, zr1) \<Rightarrow> Inr (gzalloc_free_account st1 zone zstats zr1 free_addr)))"

text \<open>
  The first assignments of \<open>gzalloc_free\<close>: the address \<open>gzh\<close> of the header and the base
  \<open>saddr\<close> of the range, from the element address \<open>addr\<close>.
\<close>

definition free_gzh :: "gz_state \<Rightarrow> zone \<Rightarrow> vm_offset_t \<Rightarrow> vm_offset_t" where
  "free_gzh st zr addr =
     (if gzalloc_uf_mode st then addr + z_elem_size zr else addr - GZHEADER_SIZE)"

definition free_saddr :: "gz_state \<Rightarrow> zone \<Rightarrow> vm_offset_t \<Rightarrow> vm_offset_t" where
  "free_saddr st zr addr =
     (if gzalloc_uf_mode st then addr - PAGE_SIZE else addr - residue (z_elem_size zr))"

definition gzalloc_free :: "gz_state \<Rightarrow> zone_t \<Rightarrow> 64 word \<Rightarrow> vm_offset_t \<Rightarrow> panic + gz_state" where
  "gzalloc_free st zone zstats addr =
     (case zones st zone of
        None \<Rightarrow> Inl Bad_access
      | Some zr \<Rightarrow>
          if \<not> z_gzalloc_tracked zr then Inl Assertion_failed
          else
            let rounded = rounded_size (z_elem_size zr);
                gzh = free_gzh st zr addr;
                saddr = free_saddr st zr addr
            in if saddr AND PAGE_MASK \<noteq> 0
                 then Inl (Invalid_address addr saddr (z_elem_size zr))
               else
                 (case gzalloc_free_dfree_check st zone zr saddr of
                    Some p \<Rightarrow> Inl p
                  | None \<Rightarrow>
                      (case gzalloc_free_consistency st zone zr addr gzh of
                         Some p \<Rightarrow> Inl p
                       | None \<Rightarrow>
                           if startup_phase st < STARTUP_SUB_KMEM \<or>
                              gzone (read_gzhdr (mem st) gzh) = GZDEADZONE
                           then Inr (st\<lparr>gzalloc_early_free :=
                                         OSAddAtomic64_SInt32 rounded (gzalloc_early_free st)\<rparr>)
                           else gzalloc_free_release
                                  (if preemption_level st \<noteq> 0
                                   then st\<lparr>pdzfree_count := pdzfree_count st + 1\<rparr> else st)
                                  zone zstats zr saddr)))"

text \<open>
  Successive frees of elements of one zone: the state after the last one, or the first
  panic. \<open>released\<close> lists the ranges handed back to the arena by \<open>kmem_free\<close>, in the
  order of the calls.
\<close>

fun gzalloc_frees :: "gz_state \<Rightarrow> zone_t \<Rightarrow> 64 word \<Rightarrow> vm_offset_t list \<Rightarrow> panic + gz_state" where
  "gzalloc_frees st zone zstats [] = Inr st"
| "gzalloc_frees st zone zstats (addr # addrs) =
     (case gzalloc_free st zone zstats addr of
        Inl p \<Rightarrow> Inl p
      | Inr st1 \<Rightarrow> gzalloc_frees st1 zone zstats addrs)"

fun released :: "arena_call list \<Rightarrow> (vm_offset_t \<times> vm_size_t) list" where
  "released [] = []"
| "released (Arena_free a n # calls) = (a, n) # released calls"
| "released (Arena_allocate a n g # calls) = released calls"
| "released (Arena_protect a e p # calls) = released calls"

subsection \<open>gzalloc_alloc\<close>

text \<open>
  The layout of a new allocation, from \<open>if (gzalloc_uf_mode)\<close> to the copy of the header:
  \<open>gzaddr\<close> is the base of the range obtained, \<open>owner\<close> the value stored into
  \<open>gzh->gzone\<close>. The result is the memory afterwards and the element address \<open>addr\<close>.
  The assignment \<open>*gzhcopy = *gzh\<close> reads the header and writes it at the copy's address.
\<close>

definition gzalloc_alloc_layout ::
  "bool \<Rightarrow> memory \<Rightarrow> vm_offset_t \<Rightarrow> vm_size_t \<Rightarrow> zone_t \<Rightarrow> memory \<times> vm_offset_t" where
  "gzalloc_alloc_layout uf_mode m gzaddr0 elem_size owner =
     (let rounded = rounded_size elem_size;
          gzaddr = (if uf_mode then gzaddr0 + PAGE_SIZE else gzaddr0);
          gzh = (if uf_mode then gzaddr + elem_size
                 else gzaddr + residue elem_size - GZHEADER_SIZE);
          addr = (if uf_mode then gzaddr else gzaddr + residue elem_size);
          m1 = bzero m gzaddr rounded;
          m2 = store64 m1 gzh owner;
          m3 = store32 m2 (gzh + 8) (ucast elem_size);
          m4 = store32 m3 (gzh + 12) GZALLOC_SIGNATURE
      in (if uf_mode
          then write_gzhdr m4 (gzaddr + rounded - GZHEADER_SIZE) (read_gzhdr m4 gzh)
          else m4,
          addr))"

text \<open>
  \<open>gzalloc_alloc(zone, zstats, flags)\<close>. The argument \<open>va\<close> is the address that
  \<open>kernel_memory_allocate\<close> stores into \<open>gzaddr\<close> when the arena supplies the range (the
  call is made with \<open>KMA_NOFAIL\<close>). The result is the new state and the returned address.
\<close>

definition gzalloc_alloc ::
  "gz_state \<Rightarrow> zone_t \<Rightarrow> 64 word \<Rightarrow> 32 word \<Rightarrow> vm_offset_t \<Rightarrow> panic + (gz_state \<times> vm_offset_t)" where
  "gzalloc_alloc st zone zstats flags va =
     (case zones st zone of
        None \<Rightarrow> Inl Bad_access
      | Some zr \<Rightarrow>
          if \<not> z_gzalloc_tracked zr then Inl Assertion_failed
          else if preemption_level st \<noteq> 0 \<and> flags AND Z_NOWAIT \<noteq> 0 then Inr (st, 0)
          else
            let st0 = (if preemption_level st \<noteq> 0
                       then st\<lparr>pdzalloc_count := pdzalloc_count st + 1\<rparr> else st);
                kmem_ready = (startup_phase st0 \<ge> STARTUP_SUB_KMEM);
                rounded = rounded_size (z_elem_size zr);
                early = (\<not> kmem_ready \<or> vm_page_zone st0 = ZONE_NULL)
            in if early \<and> gzalloc_reserve_size st0 < rounded + PAGE_SIZE
                 then Inl Reserve_exhausted
               else
                 let gzaddr = (if early then gzalloc_reserve st0 else va);
                     new_va = (\<not> early);
                     st1 = (if early
                            then st0\<lparr>gzalloc_reserve := gzalloc_reserve st0 + (rounded + PAGE_SIZE),
                                     gzalloc_reserve_size :=
                                       gzalloc_reserve_size st0 - (rounded + PAGE_SIZE),
                                     gzalloc_early_alloc :=
                                       OSAddAtomic64_SInt32 rounded (gzalloc_early_alloc st0)\<rparr>
                            else st0\<lparr>arena_calls := arena_calls st0 @
                                       [Arena_allocate va (rounded + PAGE_SIZE) (gzalloc_guard st0)]\<rparr>);
                     (m, addr) = gzalloc_alloc_layout (gzalloc_uf_mode st1) (mem st1) gzaddr
                                   (z_elem_size zr)
                                   (if kmem_ready \<and> vm_page_zone st1 \<noteq> ZONE_NULL then zone
                                    else GZDEADZONE)
                 in if z_self zr \<noteq> zone then Inl Assertion_failed
                    else
                      let zr1 = zr\<lparr>z_elems_free := z_elems_free zr - 1,
                                   z_va_cur := (if new_va then z_va_cur zr + 1 else z_va_cur zr),
                                   z_wired_cur := z_wired_cur zr + 1\<rparr>;
                          stats = percpu_stats st1 zstats
                      in Inr (st1\<lparr>mem := m,
                                  zones := (zones st1)(zone \<mapsto> zr1),
                                  percpu_stats := (percpu_stats st1)
                                    (zstats := stats\<lparr>zs_mem_allocated :=
                                       zs_mem_allocated stats + rounded\<rparr>),
                                  gzalloc_allocated :=
                                    OSAddAtomic64_SInt32 rounded (gzalloc_allocated st1),
                                  gzalloc_wasted :=
                                    OSAddAtomic64_SInt32 (rounded - z_elem_size zr)
                                      (gzalloc_wasted st1)\<rparr>,
                              addr))"

subsection \<open>gzalloc_element_size\<close>

text \<open>
  The forward scan of overflow mode, \<open>while (p < (uint32_t *) gzvme->vme_end)\<close>: the
  value of \<open>p\<close> when the loop ends. Incrementing a pointer past the end of the address
  space is undefined in C; the model gives \<open>None\<close> there.
\<close>

function sig_scan :: "memory \<Rightarrow> vm_offset_t \<Rightarrow> vm_offset_t \<Rightarrow> vm_offset_t option" where
  "sig_scan m p e =
     (if p < e then
        (if load32 m p = GZALLOC_SIGNATURE then Some p
         else if p < p + 4 then sig_scan m (p + 4) e
         else None)
      else Some p)"
  by pat_completeness auto
termination
  apply (relation "measure (\<lambda>(m, p, e). unat e - unat p)")
   apply simp
  apply simp
  apply unat_arith
  done

declare sig_scan.simps [simp del]

text \<open>
  The block under the comment "Locate the gzalloc metadata adjoining the element":
  the address \<open>gzh\<close> of the header for the map entry \<open>gzvme\<close>.
\<close>

definition locate_gzhdr :: "gz_state \<Rightarrow> vm_offset_t \<Rightarrow> vm_map_entry \<Rightarrow> panic + vm_offset_t" where
  "locate_gzhdr st a gzvme =
     (if gzalloc_uf_mode st then Inr (vme_end gzvme - GZHEADER_SIZE)
      else
        (case sig_scan (mem st) (vme_start gzvme) (vme_end gzvme) of
           None \<Rightarrow> Inl Bad_access
         | Some p \<Rightarrow>
             if p \<ge> vme_end gzvme then Inl (Signature_missing a)
             else Inr (p + 4 - GZHEADER_SIZE)))"

text \<open>
  \<open>gzalloc_element_size(gzaddr, z, gzsz)\<close>: \<open>None\<close> for \<open>FALSE\<close>, and for \<open>TRUE\<close> the values
  stored through \<open>z\<close> and \<open>gzsz\<close>.
\<close>

definition gzalloc_element_size ::
  "gz_state \<Rightarrow> vm_offset_t \<Rightarrow> panic + (zone_t \<times> vm_size_t) option" where
  "gzalloc_element_size st a =
     (if gzalloc_mode st \<and> kmem_range_contains (gzalloc_range st) a then
        (case vm_map_lookup_entry (gzalloc_map_entries st) a of
           None \<Rightarrow> Inl (No_map_entry a)
         | Some gzvme \<Rightarrow>
             if \<not> vme_atomic gzvme then Inl Assertion_failed
             else
               (case locate_gzhdr st a gzvme of
                  Inl pn \<Rightarrow> Inl pn
                | Inr gzh \<Rightarrow>
                    (let h = read_gzhdr (mem st) gzh
                     in if gzsig h \<noteq> GZALLOC_SIGNATURE
                          then Inl (Signature_mismatch a (gzsig h))
                        else
                          (case zones st (gzone h) of
                             None \<Rightarrow> Inl Bad_access
                           | Some zr \<Rightarrow>
                               if \<not> z_gzalloc_tracked zr then Inl (Zone_mismatch (gzone h))
                               else Inr (Some (gzone h, z_elem_size zr))))))
      else Inr None)"

section \<open>Ring identity (Security/keychain/SecureObjectSync/SOSRingUtils.c)\<close>

text \<open>
  A ring holds Core Foundation dictionaries; a null reference is \<open>None\<close>. The values of
  a dictionary are strings, numbers or objects of another type. \<open>asString\<close> and
  \<open>asNumber\<close> yield the object when it has the type asked for and null otherwise;
  \<open>CFEqualSafe\<close> is equality, where null equals only null.
\<close>

datatype cf_type = CFString string | CFNumber int | CFOther nat

type_synonym cf_dictionary = "string \<Rightarrow> cf_type option"

record SOSRing =
  unSignedInformation :: "cf_dictionary option"
  signedInformation :: "cf_dictionary option"
  signatures :: "cf_dictionary option"
  data :: "cf_dictionary option"

type_synonym SOSRingRef = "SOSRing option"

datatype sos_failure = Assertion | Null_dereference | Not_a_number

definition sNameKey :: string where "sNameKey = ''RingName''"
definition sTypeKey :: string where "sTypeKey = ''RingType''"
definition sIdentifierKey :: string where "sIdentifierKey = ''Identifier''"
definition sRingVersionKey :: string where "sRingVersionKey = ''RingVersion''"

definition asString :: "cf_type option \<Rightarrow> cf_type option" where
  "asString obj = (case obj of Some (CFString s) \<Rightarrow> Some (CFString s) | _ \<Rightarrow> None)"

definition asNumber :: "cf_type option \<Rightarrow> cf_type option" where
  "asNumber obj = (case obj of Some (CFNumber n) \<Rightarrow> Some (CFNumber n) | _ \<Rightarrow> None)"

definition CFEqualSafe :: "cf_type option \<Rightarrow> cf_type option \<Rightarrow> bool" where
  "CFEqualSafe left right = (left = right)"

text \<open>
  \<open>CFNumberGetValue(number, kCFNumberSInt32Type, &value)\<close> with \<open>value\<close> a \<open>uint32_t\<close>: the
  low 32 bits of the number. Applied to an object that is not a number it fails.
\<close>

definition CFNumberGetValue :: "cf_type \<Rightarrow> sos_failure + 32 word" where
  "CFNumberGetValue obj = (case obj of CFNumber n \<Rightarrow> Inr (word_of_int n) | _ \<Rightarrow> Inl Not_a_number)"

definition SOSRingGetName :: "SOSRingRef \<Rightarrow> sos_failure + cf_type option" where
  "SOSRingGetName ring =
     (case ring of
        None \<Rightarrow> Inl Assertion
      | Some r \<Rightarrow>
          (case signedInformation r of
             None \<Rightarrow> Inl Assertion
           | Some d \<Rightarrow> Inr (asString (d sNameKey))))"

text \<open>
  \<open>SOSRingAssertStable\<close> and \<open>kSOSRingTypeError\<close> are declared in headers that are not
  among the sources; \<open>SOSRingGetType\<close> takes them as the parameters \<open>assert_stable\<close> and
  \<open>type_error\<close>.
\<close>

definition SOSRingGetType ::
  "(SOSRingRef \<Rightarrow> sos_failure + bool) \<Rightarrow> 32 word \<Rightarrow> SOSRingRef \<Rightarrow> sos_failure + 32 word" where
  "SOSRingGetType assert_stable type_error ring =
     (case assert_stable ring of
        Inl f \<Rightarrow> Inl f
      | Inr ok \<Rightarrow>
          if \<not> ok then Inr type_error
          else
            (case ring of
               None \<Rightarrow> Inl Null_dereference
             | Some r \<Rightarrow>
                 (case signedInformation r of
                    None \<Rightarrow> Inr type_error
                  | Some d \<Rightarrow>
                      (case asNumber (d sTypeKey) of
                         Some ringtype \<Rightarrow> CFNumberGetValue ringtype
                       | None \<Rightarrow> Inr type_error))))"

definition SOSRingGetVersion :: "SOSRingRef \<Rightarrow> sos_failure + 32 word" where
  "SOSRingGetVersion ring =
     (case ring of
        None \<Rightarrow> Inl Assertion
      | Some r \<Rightarrow>
          (case signedInformation r of
             None \<Rightarrow> Inl Assertion
           | Some d \<Rightarrow>
               (case d sRingVersionKey of
                  None \<Rightarrow> Inr 0
                | Some cfversion \<Rightarrow> CFNumberGetValue cfversion)))"

definition SOSRingGetIdentifier :: "SOSRingRef \<Rightarrow> sos_failure + cf_type option" where
  "SOSRingGetIdentifier ring =
     (case ring of
        None \<Rightarrow> Inl Assertion
      | Some r \<Rightarrow>
          (case signedInformation r of
             None \<Rightarrow> Inl Assertion
           | Some d \<Rightarrow> Inr (d sIdentifierKey)))"

definition SOSRingIsSame ::
  "(SOSRingRef \<Rightarrow> sos_failure + bool) \<Rightarrow> 32 word \<Rightarrow> SOSRingRef \<Rightarrow> SOSRingRef
     \<Rightarrow> sos_failure + bool" where
  "SOSRingIsSame assert_stable type_error ring1 ring2 =
     (case SOSRingGetName ring1 of Inl f \<Rightarrow> Inl f | Inr name1 \<Rightarrow>
     (case SOSRingGetName ring2 of Inl f \<Rightarrow> Inl f | Inr name2 \<Rightarrow>
      if \<not> (name1 \<noteq> None \<and> name2 \<noteq> None) then Inr False
      else if CFEqualSafe name1 name2 \<noteq> True then Inr False
      else
       (case SOSRingGetType assert_stable type_error ring1 of Inl f \<Rightarrow> Inl f | Inr type1 \<Rightarrow>
       (case SOSRingGetVersion ring2 of Inl f \<Rightarrow> Inl f | Inr type2 \<Rightarrow>
        if \<not> (type1 \<noteq> 0 \<and> type2 \<noteq> 0) then Inr False
        else if type1 \<noteq> type2 then Inr False
        else
         (case SOSRingGetIdentifier ring1 of Inl f \<Rightarrow> Inl f | Inr identifier1 \<Rightarrow>
         (case SOSRingGetIdentifier ring2 of Inl f \<Rightarrow> Inl f | Inr identifier2 \<Rightarrow>
          if \<not> (identifier1 \<noteq> None \<and> identifier2 \<noteq> None) then Inr False
          else if CFEqualSafe identifier1 identifier2 \<noteq> True then Inr False
          else Inr True))))))"

section \<open>Example inputs\<close>

text \<open>
  A ring of type 2 and version 1, with a name and an identifier, as \<open>SOSRingCreate\<close>
  builds them (\<open>RINGVERSION\<close> is 1).
\<close>

definition example_ring :: SOSRing where
  "example_ring =
     \<lparr>unSignedInformation = Some (\<lambda>k. None),
      signedInformation =
        Some ((\<lambda>k. None)(sNameKey \<mapsto> CFString ''Ring A'', sTypeKey \<mapsto> CFNumber 2,
                          sRingVersionKey \<mapsto> CFNumber 1, sIdentifierKey \<mapsto> CFString ''id'')),
      signatures = Some (\<lambda>k. None),
      data = Some (\<lambda>k. None)\<rparr>"

text \<open>
  The globals with the values gzalloc.c initialises them to, in an environment with no
  zones, zeroed memory and statistics, and an empty arena.
\<close>

definition initial_state :: gz_state where
  "initial_state =
     \<lparr>gzalloc_mode = False, pdzalloc_count = 0, pdzfree_count = 0,
      gzalloc_min = NOT 0, gzalloc_max = 0,
      gzalloc_allocated = 0, gzalloc_freed = 0, gzalloc_early_alloc = 0,
      gzalloc_early_free = 0, gzalloc_wasted = 0,
      gzalloc_uf_mode = False, gzalloc_consistency_checks = True, gzalloc_dfree_check = True,
      gzalloc_prot = VM_PROT_NONE, gzalloc_guard = KMA_GUARD_LAST, gzfc_size = GZFC_DEFAULT_SIZE,
      gzalloc_range = \<lparr>min_address = 0, max_address = 0\<rparr>,
      gzalloc_reserve = 0, gzalloc_reserve_size = 0,
      gztrackzone = 0, gznamedzone = [],
      vm_page_zone = ZONE_NULL, startup_phase = 0, preemption_level = 0,
      zones = (\<lambda>z. None),
      percpu_stats = (\<lambda>zstats. \<lparr>zs_mem_allocated = 0, zs_mem_freed = 0\<rparr>),
      mem = (\<lambda>a. 0), gzalloc_map_entries = [], vm_map_protect_kr = (\<lambda>a. KERN_SUCCESS),
      arena_calls = []\<rparr>"

text \<open>
  A zone of 64-byte elements at address \<open>0x1000\<close>, before \<open>gzalloc_zone_init\<close>, and the
  state after boot with \<open>gzalloc_size=64 gzalloc_fc_size=2\<close>, the VM ready and the arena
  at \<open>[0x100000, 0x200000)\<close>.
\<close>

definition example_zone :: zone where
  "example_zone =
     \<lparr>z_self = 0x1000, z_name = ''example'', z_elem_size = 64, z_gzalloc_tracked = False,
      gz = \<lparr>gzfc_index = 0, gzfc = []\<rparr>,
      z_elems_free = 0, z_wired_cur = 0, z_va_cur = 0\<rparr>"

definition example_state :: gz_state where
  "example_state =
     initial_state\<lparr>gzalloc_mode := True, gzalloc_min := 64, gzalloc_max := 64,
                   gzfc_size := 2,
                   gzalloc_range := \<lparr>min_address = 0x100000, max_address = 0x200000\<rparr>,
                   vm_page_zone := 0x2000, startup_phase := STARTUP_SUB_KMEM,
                   zones := (\<lambda>z. None)(0x1000 \<mapsto> example_zone)\<rparr>"

text \<open>
  A tracked zone of 4080-byte elements, as \<open>gzalloc_zone_init\<close> leaves it: an element
  and its header fill one page, so the residue is the header. The state \<open>free_state\<close>
  has this zone and a live allocation of it at the base \<open>0x100000\<close> of the arena: the
  header is at \<open>0x100000\<close> and the element at \<open>0x100010\<close>.
\<close>

definition tracked_zone :: zone where
  "tracked_zone =
     \<lparr>z_self = 0x1000, z_name = ''example'', z_elem_size = 4080, z_gzalloc_tracked = True,
      gz = \<lparr>gzfc_index = 0, gzfc = [0, 0]\<rparr>,
      z_elems_free = 0, z_wired_cur = 3, z_va_cur = 3\<rparr>"

definition example_header :: gzhdr_t where
  "example_header = \<lparr>gzone = 0x1000, gzsize = 4080, gzsig = GZALLOC_SIGNATURE\<rparr>"

definition free_state :: gz_state where
  "free_state =
     example_state\<lparr>gzalloc_min := 4080, gzalloc_max := 4080,
                   zones := (\<lambda>z. None)(0x1000 \<mapsto> tracked_zone),
                   mem := write_gzhdr (\<lambda>a. 0) 0x100000 example_header\<rparr>"

text \<open>
  The state \<open>cached_state\<close>: the zone after two frees, with the bases \<open>0x100000\<close> and
  \<open>0x102000\<close> in its free cache.
\<close>

definition cached_state :: gz_state where
  "cached_state =
     free_state\<lparr>zones := (\<lambda>z. None)(0x1000 \<mapsto>
       tracked_zone\<lparr>gz := \<lparr>gzfc_index = 2, gzfc = [0x100000, 0x102000]\<rparr>\<rparr>)\<rparr>"

text \<open>
  Underflow mode: a tracked zone of 64-byte elements, the state \<open>uf_state\<close> booted with
  \<open>-gzalloc_uf_mode\<close>, and the state \<open>uf_live_state\<close> after one allocation for which the
  arena supplied the range at \<open>0x100000\<close>. The guard page comes first, the element is at
  \<open>0x101000\<close>, its header at \<open>0x101040\<close> and the copy of the header at \<open>0x101ff0\<close>.
\<close>

definition uf_zone :: zone where
  "uf_zone =
     \<lparr>z_self = 0x1000, z_name = ''example'', z_elem_size = 64, z_gzalloc_tracked = True,
      gz = \<lparr>gzfc_index = 0, gzfc = [0, 0]\<rparr>,
      z_elems_free = 1, z_wired_cur = 0, z_va_cur = 0\<rparr>"

definition uf_state :: gz_state where
  "uf_state =
     example_state\<lparr>gzalloc_uf_mode := True, gzalloc_guard := KMA_GUARD_FIRST,
                   zones := (\<lambda>z. None)(0x1000 \<mapsto> uf_zone)\<rparr>"

definition uf_live_state :: gz_state where
  "uf_live_state =
     uf_state\<lparr>arena_calls := [Arena_allocate 0x100000 8192 KMA_GUARD_FIRST],
              mem := fst (gzalloc_alloc_layout True (\<lambda>a. 0) 0x100000 64 0x1000),
              zones := (\<lambda>z. None)(0x1000 \<mapsto>
                uf_zone\<lparr>z_elems_free := 0, z_va_cur := 1, z_wired_cur := 1\<rparr>),
              percpu_stats := (\<lambda>zstats. \<lparr>zs_mem_allocated = 0, zs_mem_freed = 0\<rparr>)
                (0 := \<lparr>zs_mem_allocated = 4096, zs_mem_freed = 0\<rparr>),
              gzalloc_allocated := 4096,
              gzalloc_wasted := 4032\<rparr>"

text \<open>
  The same zone of 64-byte elements in overflow mode.
\<close>

definition overflow_state :: gz_state where
  "overflow_state = uf_state\<lparr>gzalloc_uf_mode := False, gzalloc_guard := KMA_GUARD_LAST\<rparr>"

text \<open>
  Reverse lookup: \<open>free_state\<close> with the map entry of its allocation, and the same state
  after a write of 100 to the four bytes at \<open>0x100008\<close>, eight bytes below the element,
  where the header keeps \<open>gzsize\<close>.
\<close>

definition lookup_state :: gz_state where
  "lookup_state =
     free_state\<lparr>gzalloc_map_entries :=
       [\<lparr>vme_start = 0x100000, vme_end = 0x102000, vme_atomic = True\<rparr>]\<rparr>"

definition underrun_state :: gz_state where
  "underrun_state = lookup_state\<lparr>mem := store32 (mem lookup_state) 0x100008 100\<rparr>"

text \<open>
  Before the VM is ready: \<open>early_state\<close> has the tracked zone of 4080-byte elements and
  a reserve of 2 MiB at \<open>0x8000000\<close>; \<open>early_live_state\<close> is the state after one
  allocation, which takes two pages from the reserve.
\<close>

definition early_state :: gz_state where
  "early_state =
     free_state\<lparr>startup_phase := 0, mem := (\<lambda>a. 0),
                gzalloc_reserve := 0x8000000, gzalloc_reserve_size := 0x200000\<rparr>"

definition early_live_state :: gz_state where
  "early_live_state =
     early_state\<lparr>gzalloc_reserve := 0x8002000, gzalloc_reserve_size := 0x1fe000,
                 gzalloc_early_alloc := 4096,
                 mem := fst (gzalloc_alloc_layout False (\<lambda>a. 0) 0x8000000 4080 GZDEADZONE),
                 zones := (\<lambda>z. None)(0x1000 \<mapsto>
                   tracked_zone\<lparr>z_elems_free := - 1, z_wired_cur := 4\<rparr>),
                 percpu_stats := (\<lambda>zstats. \<lparr>zs_mem_allocated = 0, zs_mem_freed = 0\<rparr>)
                   (0 := \<lparr>zs_mem_allocated = 4096, zs_mem_freed = 0\<rparr>),
                 gzalloc_allocated := 4096,
                 gzalloc_wasted := 16\<rparr>"

text \<open>
  The state \<open>three_live_state\<close>: \<open>free_state\<close> with two more live allocations of the zone,
  at the bases \<open>0x102000\<close> and \<open>0x104000\<close>; the elements are at \<open>0x100010\<close>, \<open>0x102010\<close> and
  \<open>0x104010\<close>.
\<close>

definition three_live_state :: gz_state where
  "three_live_state =
     free_state\<lparr>mem := write_gzhdr (write_gzhdr (mem free_state) 0x102000 example_header)
                           0x104000 example_header\<rparr>"

section \<open>Properties\<close>

subsection \<open>The residue\<close>

lemmas page_defs = round_page_def trunc_page_def PAGE_MASK_def PAGE_SIZE_def
  rounded_size_def residue_def GZHEADER_SIZE_def

text \<open>
  C2, as claimed: in overflow mode \<open>residue + element_size + header_size = P\<close>, where
  \<open>P = round_up(E + H, page)\<close> and \<open>residue\<close> is what the allocator computes. This fails:
  for a zone of 64-byte elements \<open>P\<close> is 4096 and the residue is 4032, so the sum is 4112.
\<close>

theorem residue_identity_counterexample:
  "residue 64 + 64 + GZHEADER_SIZE \<noteq> rounded_size 64"
  by (simp add: page_defs)

subsection \<open>Ring identity\<close>

text \<open>
  C9: \<open>SOSRingIsSame(ring1, ring2)\<close> compares the type of \<open>ring1\<close> with the version of
  \<open>ring2\<close>. For two rings whose names are both non-null and equal, if
  \<open>SOSRingGetType(ring1)\<close> and \<open>SOSRingGetVersion(ring2)\<close> are both non-zero and differ,
  the result is false, whatever the type of \<open>ring2\<close> is.
\<close>

theorem SOSRingIsSame_type_against_version:
  assumes "SOSRingGetName ring1 = Inr (Some name1)"
    and "SOSRingGetName ring2 = Inr (Some name2)"
    and "name1 = name2"
    and "SOSRingGetType assert_stable type_error ring1 = Inr type1"
    and "SOSRingGetVersion ring2 = Inr version2"
    and "type1 \<noteq> 0" and "version2 \<noteq> 0" and "type1 \<noteq> version2"
  shows "SOSRingIsSame assert_stable type_error ring1 ring2 = Inr False"
  using assms by (simp add: SOSRingIsSame_def CFEqualSafe_def)

text \<open>
  The example ring compared with itself: the names, the types and the identifiers are
  equal, and the rings are not the same, because the type 2 is not the version 1.
\<close>

theorem SOSRingIsSame_type_against_version_witness:
  "SOSRingGetType (\<lambda>r. Inr True) 0xfbad (Some example_ring) = Inr 2 \<and>
   SOSRingGetVersion (Some example_ring) = Inr 1 \<and>
   SOSRingIsSame (\<lambda>r. Inr True) 0xfbad (Some example_ring) (Some example_ring) = Inr False"
proof -
  have name: "SOSRingGetName (Some example_ring) = Inr (Some (CFString ''Ring A''))"
    by (simp add: SOSRingGetName_def example_ring_def asString_def sNameKey_def sTypeKey_def
        sRingVersionKey_def sIdentifierKey_def)
  have type: "SOSRingGetType (\<lambda>r. Inr True) 0xfbad (Some example_ring) = Inr 2"
    by (simp add: SOSRingGetType_def example_ring_def asNumber_def CFNumberGetValue_def
        sNameKey_def sTypeKey_def sRingVersionKey_def sIdentifierKey_def)
  have version: "SOSRingGetVersion (Some example_ring) = Inr 1"
    by (simp add: SOSRingGetVersion_def example_ring_def CFNumberGetValue_def
        sNameKey_def sTypeKey_def sRingVersionKey_def sIdentifierKey_def)
  show ?thesis
    using SOSRingIsSame_type_against_version [OF name name refl type version] type version
    by simp
qed

subsection \<open>Which zones are tracked\<close>

lemmas example_defs = free_state_def example_state_def initial_state_def tracked_zone_def
  example_header_def example_zone_def

lemmas mem_defs = read_gzhdr_def write_gzhdr_def load32_def load64_def store32_def store64_def

lemmas const_defs = GZALLOC_SIGNATURE_def GZDEADZONE_def STARTUP_SUB_KMEM_def KERN_SUCCESS_def
  ZONE_NULL_def gzalloc_fill_pattern_def sizeof_gzh_def Z_NOWAIT_def

text \<open>
  What \<open>gzalloc_zone_init\<close> leaves in the flag of any zone: with the engine disabled the
  flag is not touched, and a zone that \<open>gztrackzone\<close> already points to is tracked.
\<close>

lemma gzalloc_zone_init_tracked_general:
  assumes "zones st z = Some zr"
    and "startup_phase st < STARTUP_SUB_KMEM \<longrightarrow>
           round_page (8 * ucast (gzfc_size st)) \<le> gzalloc_reserve_size st"
  shows "\<exists>st' zr'. gzalloc_zone_init st z = Inr st' \<and> zones st' z = Some zr' \<and>
           (z_gzalloc_tracked zr' \<longleftrightarrow>
              (if gzalloc_mode st
               then track_this_zone (z_name zr) (gznamedzone st) \<or> gztrackzone st = z \<or>
                    (ucast (gzalloc_min st) \<le> z_elem_size zr \<and>
                     z_elem_size zr \<le> ucast (gzalloc_max st))
               else z_gzalloc_tracked zr))"
  using assms by (auto simp add: gzalloc_zone_init_def Let_def)

text \<open>
  C6: a zone passed to \<open>gzalloc_zone_init\<close> ends up marked tracked if and only if the
  engine is enabled and its name matches the configured name or its element size lies
  between \<open>gzalloc_min\<close> and \<open>gzalloc_max\<close>. The zone is a new one: its flag is clear and
  \<open>gztrackzone\<close> does not point to it yet. Before the VM is ready the reserve has room
  for the array of the free cache, so that the function returns.
\<close>

theorem gzalloc_zone_init_tracked:
  assumes "zones st z = Some zr"
    and "\<not> z_gzalloc_tracked zr"
    and "gztrackzone st \<noteq> z"
    and "startup_phase st < STARTUP_SUB_KMEM \<longrightarrow>
           round_page (8 * ucast (gzfc_size st)) \<le> gzalloc_reserve_size st"
  shows "\<exists>st' zr'. gzalloc_zone_init st z = Inr st' \<and> zones st' z = Some zr' \<and>
           (z_gzalloc_tracked zr' \<longleftrightarrow>
              gzalloc_mode st \<and>
              (track_this_zone (z_name zr) (gznamedzone st) \<or>
               (ucast (gzalloc_min st) \<le> z_elem_size zr \<and>
                z_elem_size zr \<le> ucast (gzalloc_max st))))"
  using assms by (auto simp add: gzalloc_zone_init_def Let_def)

theorem gzalloc_zone_init_tracked_witness:
  "zones example_state 0x1000 = Some example_zone \<and> \<not> z_gzalloc_tracked example_zone \<and>
   gztrackzone example_state \<noteq> 0x1000 \<and>
   (\<exists>st' zr'. gzalloc_zone_init example_state 0x1000 = Inr st' \<and>
      zones st' 0x1000 = Some zr' \<and> z_gzalloc_tracked zr')"
proof -
  have h1: "zones example_state 0x1000 = Some example_zone"
    by (simp add: example_state_def)
  have h2: "\<not> z_gzalloc_tracked example_zone"
    by (simp add: example_zone_def)
  have h3: "gztrackzone example_state \<noteq> 0x1000"
    by (simp add: example_state_def initial_state_def)
  have h4: "startup_phase example_state < STARTUP_SUB_KMEM \<longrightarrow>
      round_page (8 * ucast (gzfc_size example_state)) \<le> gzalloc_reserve_size example_state"
    by (simp add: example_state_def)
  have rhs: "gzalloc_mode example_state \<and>
      (track_this_zone (z_name example_zone) (gznamedzone example_state) \<or>
       (ucast (gzalloc_min example_state) \<le> z_elem_size example_zone \<and>
        z_elem_size example_zone \<le> ucast (gzalloc_max example_state)))"
    by (simp add: example_state_def example_zone_def initial_state_def)
  show ?thesis
    using gzalloc_zone_init_tracked [OF h1 h2 h3 h4] h1 h2 h3 rhs by auto
qed

subsection \<open>The panics and the tunables of gzalloc_free\<close>

lemma SInt32_small: "x < 2 ^ 31 \<Longrightarrow> SInt32 x = x"
proof -
  assume "x < 2 ^ 31"
  then have tb: "take_bit 31 x = x"
    using less_mask_eq [of x 31] by (simp add: take_bit_eq_mask)
  have nb: "\<not> bit x n" if "31 \<le> n" for n
  proof -
    have "bit x n = bit (take_bit 31 x) n" by (simp add: tb)
    with that show ?thesis by (simp add: bit_take_bit_iff)
  qed
  show ?thesis
    unfolding SInt32_def
    by (rule bit_word_eqI) (auto simp add: bit_simps nb min_def)
qed

lemma dfree_scan_Inl: "dfree_scan fc n saddr gd = Inl p \<Longrightarrow> p = Bad_access"
  by (induction fc n saddr gd rule: dfree_scan.induct)
     (subst (asm) dfree_scan.simps, auto split: if_splits)

lemma gzalloc_free_dfree_check_panics:
  "gzalloc_free_dfree_check st zone zr saddr = Some p \<Longrightarrow>
     gzfc_size st \<noteq> 0 \<and> gzalloc_dfree_check st"
  by (auto simp add: gzalloc_free_dfree_check_def split: if_splits)

lemma gzalloc_free_consistency_not_dfree:
  "gzalloc_free_consistency st zone zr addr gzh \<noteq> Some (Double_free x i gd)"
  unfolding gzalloc_free_consistency_def Let_def
  by (simp split: option.split)

lemma gzfc_insert_Inl: "gzfc_insert n zr saddr = Inl p \<Longrightarrow> p = Bad_access"
  unfolding gzfc_insert_def Let_def
  by (simp split: if_split_asm)

lemma gzalloc_free_release_not_dfree:
  "gzalloc_free_release st zone zstats zr saddr \<noteq> Inl (Double_free x i gd)"
  unfolding gzalloc_free_release_def Let_def
  by (auto split: sum.split dest: gzfc_insert_Inl)

lemma gzalloc_free_Double_free:
  assumes "gzalloc_free st zone zstats addr = Inl (Double_free x i gd)"
  shows "gzfc_size st \<noteq> 0 \<and> gzalloc_dfree_check st"
proof (cases "zones st zone")
  case None
  with assms show ?thesis by (simp add: gzalloc_free_def)
next
  case (Some zr)
  let ?gzh = "free_gzh st zr addr"
  let ?saddr = "free_saddr st zr addr"
  show ?thesis
  proof (cases "gzalloc_free_dfree_check st zone zr ?saddr")
    case None
    with assms Some show ?thesis
      using gzalloc_free_consistency_not_dfree [of st zone zr addr ?gzh x i gd]
        gzalloc_free_release_not_dfree
      by (simp add: gzalloc_free_def Let_def split: if_split_asm option.split_asm)
  next
    case (Some p)
    then show ?thesis by (rule gzalloc_free_dfree_check_panics)
  qed
qed

lemma gzalloc_free_account_tunables:
  "gzfc_size (gzalloc_free_account st zone zstats zr free_addr) = gzfc_size st \<and>
   gzalloc_dfree_check (gzalloc_free_account st zone zstats zr free_addr) = gzalloc_dfree_check st"
  by (simp add: gzalloc_free_account_def Let_def)

lemma gzalloc_free_release_tunables:
  "gzalloc_free_release st zone zstats zr saddr = Inr st1 \<Longrightarrow>
     gzfc_size st1 = gzfc_size st \<and> gzalloc_dfree_check st1 = gzalloc_dfree_check st"
  unfolding gzalloc_free_release_def Let_def
  by (auto simp add: gzalloc_free_account_tunables split: if_split_asm sum.split_asm)

lemma gzalloc_free_tunables:
  assumes "gzalloc_free st zone zstats addr = Inr st1"
  shows "gzfc_size st1 = gzfc_size st \<and> gzalloc_dfree_check st1 = gzalloc_dfree_check st"
proof (cases "zones st zone")
  case None
  with assms show ?thesis by (simp add: gzalloc_free_def)
next
  case (Some zr)
  with assms show ?thesis
    by (auto simp add: gzalloc_free_def Let_def
        split: if_split_asm option.split_asm dest!: gzalloc_free_release_tunables)
qed

lemmas free_defs = gzalloc_free_def gzalloc_free_consistency_def gzalloc_free_dfree_check_def
  gzalloc_free_release_def gzfc_insert_def gzalloc_free_account_def checkstart_def checkend_def
  free_gzh_def free_saddr_def

text \<open>
  C10: \<open>gzalloc_free\<close> scans the free cache for a double free only when the capacity
  \<open>gzfc_size\<close> is not zero and \<open>gzalloc_dfree_check\<close> is set. With \<open>gzfc_size = 0\<close> and the
  check enabled, a free that returned leaves both tunables as they were; in neither
  state does the block of the double-free check report anything, for any address, and
  freeing the same pointer again does not end in the double-free panic.
\<close>

theorem gzalloc_free_no_dfree_scan_without_cache:
  assumes "gzfc_size st = 0" and "gzalloc_dfree_check st"
    and "gzalloc_free st zone zstats addr = Inr st1"
  shows "gzfc_size st1 = 0 \<and> gzalloc_dfree_check st1 \<and>
         gzalloc_free_dfree_check st zone zr saddr = None \<and>
         gzalloc_free_dfree_check st1 zone zr saddr = None \<and>
         gzalloc_free st1 zone zstats addr \<noteq> Inl (Double_free x i gd)"
proof -
  from assms have t: "gzfc_size st1 = 0" "gzalloc_dfree_check st1"
    using gzalloc_free_tunables [of st zone zstats addr st1] by simp_all
  moreover have "gzalloc_free st1 zone zstats addr \<noteq> Inl (Double_free x i gd)"
    using gzalloc_free_Double_free [of st1 zone zstats addr x i gd] t by auto
  ultimately show ?thesis
    using assms by (simp add: gzalloc_free_dfree_check_def)
qed

text \<open>
  In \<open>free_state\<close> without a free cache, the element at \<open>0x100010\<close> is freed twice.
\<close>

theorem gzalloc_free_no_dfree_scan_without_cache_witness:
  "gzfc_size (free_state\<lparr>gzfc_size := 0\<rparr>) = 0 \<and>
   gzalloc_dfree_check (free_state\<lparr>gzfc_size := 0\<rparr>) \<and>
   (\<exists>st1. gzalloc_free (free_state\<lparr>gzfc_size := 0\<rparr>) 0x1000 0 0x100010 = Inr st1 \<and>
      gzalloc_free st1 0x1000 0 0x100010 \<noteq> Inl (Double_free 0x100000 0 0))"
proof -
  have h1: "gzfc_size (free_state\<lparr>gzfc_size := 0\<rparr>) = 0" by simp
  have h2: "gzalloc_dfree_check (free_state\<lparr>gzfc_size := 0\<rparr>)"
    by (simp add: example_defs)
  obtain st1 where h3: "gzalloc_free (free_state\<lparr>gzfc_size := 0\<rparr>) 0x1000 0 0x100010 = Inr st1"
    by (simp add: free_defs Let_def example_defs mem_defs const_defs page_defs fill_scan.simps)
  show ?thesis
    using gzalloc_free_no_dfree_scan_without_cache [OF h1 h2 h3] h1 h2 h3 by blast
qed

subsection \<open>Frees of early allocations\<close>

text \<open>
  When the VM is not ready or the header names the pre-VM sentinel as owner, a free
  either panics in one of the checks that come first, or returns a state that differs
  only in \<open>gzalloc_early_free\<close>.
\<close>

lemma gzalloc_free_early_cases:
  assumes "zones st zone = Some zr" and "z_gzalloc_tracked zr"
    and "gzh = free_gzh st zr addr"
    and "startup_phase st < STARTUP_SUB_KMEM \<or> gzone (read_gzhdr (mem st) gzh) = GZDEADZONE"
  shows "(\<exists>p. gzalloc_free st zone zstats addr = Inl p) \<or>
         gzalloc_free st zone zstats addr =
           Inr (st\<lparr>gzalloc_early_free :=
                  gzalloc_early_free st + SInt32 (rounded_size (z_elem_size zr))\<rparr>)"
  using assms
  by (auto simp add: gzalloc_free_def Let_def OSAddAtomic64_SInt32_def split: option.split)

text \<open>
  C7: a free for which the VM is not ready, or whose header names the pre-VM sentinel
  as owner, adds \<open>P = round_up(E + H, page)\<close> to \<open>gzalloc_early_free\<close> and returns; nothing
  else in the state changes: no call into the arena (no protection change, no release),
  no change of the free cache, of the zone counters or of the per-CPU statistics. The
  free is one that passes the checks made before: the page alignment of the base, the
  double-free check and the consistency checks. \<open>P\<close> is below \<open>2^31\<close>, so that the cast
  to \<open>SInt32\<close> keeps it.
\<close>

theorem gzalloc_free_early_leak:
  assumes "zones st zone = Some zr" and "z_gzalloc_tracked zr"
    and "gzh = free_gzh st zr addr"
    and "saddr = free_saddr st zr addr"
    and "saddr AND PAGE_MASK = 0"
    and "gzalloc_free_dfree_check st zone zr saddr = None"
    and "gzalloc_free_consistency st zone zr addr gzh = None"
    and "startup_phase st < STARTUP_SUB_KMEM \<or> gzone (read_gzhdr (mem st) gzh) = GZDEADZONE"
    and "rounded_size (z_elem_size zr) < 2 ^ 31"
  shows "gzalloc_free st zone zstats addr =
           Inr (st\<lparr>gzalloc_early_free :=
                  gzalloc_early_free st + rounded_size (z_elem_size zr)\<rparr>)"
  using assms
  by (auto simp add: gzalloc_free_def Let_def OSAddAtomic64_SInt32_def SInt32_small)

text \<open>
  The allocation of \<open>free_state\<close>, freed while \<open>startup_phase\<close> is still 0: the result is
  the same state with 4096 in \<open>gzalloc_early_free\<close>.
\<close>

theorem gzalloc_free_early_leak_witness:
  "gzalloc_free (free_state\<lparr>startup_phase := 0\<rparr>) 0x1000 0 0x100010 =
     Inr (free_state\<lparr>startup_phase := 0, gzalloc_early_free := 4096\<rparr>)"
proof -
  let ?st = "free_state\<lparr>startup_phase := 0\<rparr>"
  have h1: "zones ?st 0x1000 = Some tracked_zone" by (simp add: example_defs)
  have h2: "z_gzalloc_tracked tracked_zone" by (simp add: example_defs)
  have h3: "(0x100000 :: 64 word) = free_gzh ?st tracked_zone 0x100010"
    by (simp add: free_gzh_def example_defs page_defs)
  have h4: "(0x100000 :: 64 word) = free_saddr ?st tracked_zone 0x100010"
    by (simp add: free_saddr_def example_defs page_defs)
  have h5: "(0x100000 :: 64 word) AND PAGE_MASK = 0" by (simp add: page_defs)
  have h6: "gzalloc_free_dfree_check ?st 0x1000 tracked_zone 0x100000 = None"
    by (simp add: free_defs example_defs dfree_scan.simps)
  have h7: "gzalloc_free_consistency ?st 0x1000 tracked_zone 0x100010 0x100000 = None"
    by (simp add: free_defs Let_def example_defs mem_defs const_defs page_defs fill_scan.simps)
  have h8: "startup_phase ?st < STARTUP_SUB_KMEM \<or>
      gzone (read_gzhdr (mem ?st) 0x100000) = GZDEADZONE"
    by (simp add: const_defs)
  have h9: "rounded_size (z_elem_size tracked_zone) < 2 ^ 31"
    by (simp add: example_defs page_defs)
  show ?thesis
    using gzalloc_free_early_leak [OF h1 h2 h3 h4 h5 h6 h7 h8 h9]
    by (simp add: example_defs page_defs)
qed

subsection \<open>Emptying the free cache\<close>

lemma free_cached_elements_bounds:
  "free_cached_elements st e copy n index freed = Inr r \<Longrightarrow> index < n \<Longrightarrow> unat n \<le> length copy"
proof (induction st e copy n index freed rule: free_cached_elements.induct)
  case (1 st elem_size gzfc_copy n index freed_elements)
  show ?case
  proof (cases "index + 1 < n")
    case True
    with "1.prems" "1.IH" show ?thesis
      by (subst (asm) free_cached_elements.simps) (auto simp add: Let_def split: if_split_asm)
  next
    case False
    with "1.prems" have "unat n = Suc (unat index)" by unat_arith
    with "1.prems" show ?thesis
      by (subst (asm) free_cached_elements.simps) (auto simp add: Let_def split: if_split_asm)
  qed
qed

lemma free_cached_elements_zero:
  "unat n \<le> length copy \<Longrightarrow> \<forall>x \<in> set copy. x = 0 \<Longrightarrow>
     free_cached_elements st e copy n index freed = Inr (st, freed)"
proof (induction st e copy n index freed rule: free_cached_elements.induct)
  case (1 st elem_size gzfc_copy n index freed_elements)
  show ?case
  proof (cases "index < n")
    case True
    then have lt: "unat index < length gzfc_copy" using "1.prems"(1) by unat_arith
    then have z: "gzfc_copy ! unat index = 0" using "1.prems"(2) by simp
    show ?thesis
      using True lt z "1.IH"(2) [OF True lt refl refl _ "1.prems"]
      by (subst free_cached_elements.simps) (simp add: Let_def)
  next
    case False
    then show ?thesis by (subst free_cached_elements.simps) simp
  qed
qed

lemma free_cached_elements_frame:
  "free_cached_elements st e copy n index freed = Inr (st', freed') \<Longrightarrow>
     zones st' = zones st \<and> gzfc_size st' = gzfc_size st"
proof (induction st e copy n index freed rule: free_cached_elements.induct)
  case (1 st elem_size gzfc_copy n index freed_elements)
  from "1.prems" show ?case
    apply (subst (asm) free_cached_elements.simps)
    apply (simp add: Let_def split: if_split_asm)
    using "1.IH" apply fastforce
    using "1.IH" apply fastforce
    done
qed

text \<open>
  C8: \<open>gzalloc_empty_free_cache\<close> is idempotent. After a call that returned, the free
  cache of the zone holds only zeros and its insertion index is 0, and a second call
  returns the state it was given: it makes no call into the arena, so it releases no
  range, and it changes neither the zone counters \<open>z_elems_free\<close> and \<open>z_wired_cur\<close> nor
  the global counters \<open>gzalloc_freed\<close> and \<open>gzalloc_wasted\<close>.
\<close>

theorem gzalloc_empty_free_cache_idempotent:
  assumes "gzalloc_empty_free_cache st zone = Inr st1"
  shows "(\<exists>zr1. zones st1 zone = Some zr1 \<and> gzfc_index (gz zr1) = 0 \<and>
            gzfc (gz zr1) = replicate (length (gzfc (gz zr1))) 0) \<and>
         gzalloc_empty_free_cache st1 zone = Inr st1"
proof -
  from assms obtain zr where zr: "zones st zone = Some zr"
    by (cases "zones st zone") (simp_all add: gzalloc_empty_free_cache_def)
  from assms zr have tracked: "z_gzalloc_tracked zr"
    by (simp add: gzalloc_empty_free_cache_def split: if_split_asm)
  define len where "len = length (gzfc (gz zr))"
  define zr1 where "zr1 = zr\<lparr>gz := \<lparr>gzfc_index = 0, gzfc = replicate len 0\<rparr>\<rparr>"
  define stA where "stA = st\<lparr>zones := (zones st)(zone \<mapsto> zr1)\<rparr>"
  from assms zr tracked obtain st2 fe where
    loop: "free_cached_elements stA (z_elem_size zr) (gzfc (gz zr)) (gzfc_size st) 0 0 =
             Inr (st2, fe)"
    and st1: "st1 = st2\<lparr>zones := (zones st2)(zone \<mapsto>
                zr1\<lparr>z_elems_free := z_elems_free zr1 + fe,
                    z_wired_cur := z_wired_cur zr1 - fe\<rparr>)\<rparr>"
    by (auto simp add: gzalloc_empty_free_cache_def Let_def stA_def zr1_def len_def
        split: sum.split_asm)
  define zrF where "zrF = zr1\<lparr>z_elems_free := z_elems_free zr1 + fe,
                               z_wired_cur := z_wired_cur zr1 - fe\<rparr>"
  from free_cached_elements_frame [OF loop]
  have frame: "zones st2 = zones stA" "gzfc_size st2 = gzfc_size st"
    by (simp_all add: stA_def)
  have n: "unat (gzfc_size st) \<le> len"
  proof (cases "0 < gzfc_size st")
    case True
    with free_cached_elements_bounds [OF loop] show ?thesis by (simp add: len_def)
  next
    case False
    then have "gzfc_size st = 0" by unat_arith
    then show ?thesis by simp
  qed
  have z1: "zones st1 zone = Some zrF" by (simp add: st1 zrF_def)
  have s1: "gzfc_size st1 = gzfc_size st" by (simp add: st1 frame)
  have zF: "zrF\<lparr>gz := \<lparr>gzfc_index = 0, gzfc = replicate (length (gzfc (gz zrF))) 0\<rparr>\<rparr> = zrF"
    by (simp add: zrF_def zr1_def)
  have upd: "st1\<lparr>zones := (zones st1)(zone \<mapsto> zrF)\<rparr> = st1"
    using z1 by (simp add: map_upd_triv)
  have again: "free_cached_elements st1 (z_elem_size zrF) (gzfc (gz zrF)) (gzfc_size st1) 0 0 =
      Inr (st1, 0)"
    by (rule free_cached_elements_zero) (simp_all add: zrF_def zr1_def s1 n)
  have t: "z_gzalloc_tracked zrF" using tracked by (simp add: zrF_def zr1_def)
  have "gzalloc_empty_free_cache st1 zone = Inr st1"
    by (simp add: gzalloc_empty_free_cache_def z1 t Let_def zF upd again)
  moreover have "gzfc_index (gz zrF) = 0 \<and>
      gzfc (gz zrF) = replicate (length (gzfc (gz zrF))) 0"
    by (simp add: zrF_def zr1_def)
  ultimately show ?thesis using z1 by blast
qed

text \<open>
  In \<open>cached_state\<close> the first call releases the two cached ranges, of two pages each,
  and the second call changes nothing.
\<close>

theorem gzalloc_empty_free_cache_idempotent_witness:
  "\<exists>st1. gzalloc_empty_free_cache cached_state 0x1000 = Inr st1 \<and>
     arena_calls st1 = [Arena_free 0x100000 8192, Arena_free 0x102000 8192] \<and>
     gzalloc_freed st1 = 8192 \<and>
     gzalloc_empty_free_cache st1 0x1000 = Inr st1"
proof -
  obtain st1 where h: "gzalloc_empty_free_cache cached_state 0x1000 = Inr st1"
    and a: "arena_calls st1 = [Arena_free 0x100000 8192, Arena_free 0x102000 8192]"
    and f: "gzalloc_freed st1 = 8192"
    by (simp add: gzalloc_empty_free_cache_def cached_state_def example_defs Let_def
        free_cached_elements.simps kmem_range_contains_def page_defs
        OSAddAtomic64_SInt32_def OSSubAtomic64_SInt32_def SInt32_def)
  show ?thesis
    using gzalloc_empty_free_cache_idempotent [OF h] h a f by blast
qed

subsection \<open>Headers in memory\<close>

lemma word32_of_bytes:
  "ucast (ucast v :: 8 word) OR push_bit 8 (ucast (ucast (drop_bit 8 v) :: 8 word)) OR
   push_bit 16 (ucast (ucast (drop_bit 16 v) :: 8 word)) OR
   push_bit 24 (ucast (ucast (drop_bit 24 v) :: 8 word)) = (v :: 32 word)"
  apply (rule bit_word_eqI)
  subgoal for n
    by (cases "n < 8"; cases "n < 16"; cases "n < 24") (auto simp add: bit_simps)
  done

lemma word64_of_halves:
  "ucast (ucast v :: 32 word) OR push_bit 32 (ucast (ucast (drop_bit 32 v) :: 32 word)) =
     (v :: 64 word)"
  by (rule bit_word_eqI) (auto simp add: bit_simps)

lemma read_write_gzhdr: "read_gzhdr (write_gzhdr m c h) c = h"
  by (simp add: mem_defs word32_of_bytes word64_of_halves)

lemma write_gzhdr_other: "16 \<le> x - c \<Longrightarrow> write_gzhdr m c h x = m x"
  by (auto simp add: mem_defs word_le_nat_alt)

lemma read_gzhdr_cong:
  assumes "\<And>x. x - gzh < 16 \<Longrightarrow> m x = m' x"
  shows "read_gzhdr m gzh = read_gzhdr m' gzh"
  by (simp add: mem_defs assms word_less_nat_alt)

lemma disjoint_offsets:
  fixes x d :: "64 word"
  assumes "x < 16" and "16 \<le> d" and "d \<le> - 16"
  shows "16 \<le> x - d"
proof -
  have d: "16 \<le> unat d" "unat d \<le> 2 ^ 64 - 16"
    using assms(2,3) by (simp_all add: word_le_nat_alt)
  have x: "unat x < 16" using assms(1) by (simp add: word_less_nat_alt)
  have "unat x < unat d" using d x by simp
  then have "unat (x - d) = 2 ^ 64 + unat x - unat d"
    by (simp add: unat_sub_if')
  with d x show ?thesis by (simp add: word_le_nat_alt)
qed

lemma read_write_gzhdr_disjoint:
  assumes "16 \<le> c - gzh" and "c - gzh \<le> - 16"
  shows "read_gzhdr (write_gzhdr m c h) gzh = read_gzhdr m gzh"
proof (rule read_gzhdr_cong)
  fix x :: "64 word"
  assume "x - gzh < 16"
  then have "16 \<le> (x - gzh) - (c - gzh)"
    using assms by (rule disjoint_offsets)
  then have "16 \<le> x - c" by simp
  then show "write_gzhdr m c h x = m x" by (rule write_gzhdr_other)
qed

lemma layout_overflow_eq:
  "gzalloc_alloc_layout False m gzaddr e owner =
     (write_gzhdr (bzero m gzaddr (rounded_size e)) (gzaddr + residue e - GZHEADER_SIZE)
        \<lparr>gzone = owner, gzsize = ucast e, gzsig = GZALLOC_SIGNATURE\<rparr>,
      gzaddr + residue e)"
  by (simp add: gzalloc_alloc_layout_def Let_def write_gzhdr_def)

lemma layout_underflow_eq:
  "gzalloc_alloc_layout True m gzaddr e owner =
     (let m4 = write_gzhdr (bzero m (gzaddr + PAGE_SIZE) (rounded_size e))
                 (gzaddr + PAGE_SIZE + e)
                 \<lparr>gzone = owner, gzsize = ucast e, gzsig = GZALLOC_SIGNATURE\<rparr>
      in (write_gzhdr m4 (gzaddr + PAGE_SIZE + rounded_size e - GZHEADER_SIZE)
            (read_gzhdr m4 (gzaddr + PAGE_SIZE + e)),
          gzaddr + PAGE_SIZE))"
  by (simp add: gzalloc_alloc_layout_def Let_def write_gzhdr_def)

lemma layout_overflow:
  assumes "gzalloc_alloc_layout False m gzaddr e owner = (m', addr)"
  shows "read_gzhdr m' (addr - GZHEADER_SIZE) =
           \<lparr>gzone = owner, gzsize = ucast e, gzsig = GZALLOC_SIGNATURE\<rparr>"
  using assms unfolding layout_overflow_eq by (auto simp add: read_write_gzhdr)

lemma layout_underflow:
  assumes "gzalloc_alloc_layout True m gzaddr e owner = (m', addr)"
    and "e + GZHEADER_SIZE = rounded_size e \<or>
         unat e + 2 * unat GZHEADER_SIZE \<le> unat (rounded_size e)"
  shows "read_gzhdr m' (addr + e) =
           \<lparr>gzone = owner, gzsize = ucast e, gzsig = GZALLOC_SIGNATURE\<rparr>"
proof -
  let ?gz = "gzaddr + PAGE_SIZE"
  let ?gzh = "?gz + e"
  let ?c = "?gz + rounded_size e - GZHEADER_SIZE"
  let ?h = "\<lparr>gzone = owner, gzsize = ucast e, gzsig = GZALLOC_SIGNATURE\<rparr>"
  let ?m4 = "write_gzhdr (bzero m ?gz (rounded_size e)) ?gzh ?h"
  from assms(1) have m': "m' = write_gzhdr ?m4 ?c (read_gzhdr ?m4 ?gzh)"
    and addr: "addr = ?gz"
    unfolding layout_underflow_eq Let_def by auto
  have m'': "m' = write_gzhdr ?m4 ?c ?h"
    by (simp only: m' read_write_gzhdr)
  from assms(2) show ?thesis
  proof
    assume "e + GZHEADER_SIZE = rounded_size e"
    then have "rounded_size e - GZHEADER_SIZE = e" by (simp flip: eq_diff_eq)
    then have "?c = ?gzh" by (simp add: add_diff_eq [symmetric] add.assoc)
    then show ?thesis by (simp only: m'' addr read_write_gzhdr)
  next
    assume far: "unat e + 2 * unat GZHEADER_SIZE \<le> unat (rounded_size e)"
    have d: "?c - ?gzh = rounded_size e - e - 16" by (simp add: GZHEADER_SIZE_def)
    have le: "e \<le> rounded_size e" using far by (simp add: word_le_nat_alt)
    then have u1: "unat (rounded_size e - e) = unat (rounded_size e) - unat e"
      by (rule unat_sub)
    have "16 \<le> rounded_size e - e" using far u1 by (simp add: word_le_nat_alt GZHEADER_SIZE_def)
    then have u2: "unat (rounded_size e - e - 16) = unat (rounded_size e) - unat e - 16"
      using u1 by (simp add: unat_sub)
    define dd where "dd = rounded_size e - e - 16"
    have "unat (rounded_size e) < 2 ^ 64" using unsigned_less [of "rounded_size e"] by simp
    then have "16 \<le> unat dd" "unat dd \<le> unat (- 16 :: 64 word)"
      using far u2 by (simp_all add: dd_def GZHEADER_SIZE_def)
    then have "16 \<le> dd" "dd \<le> - 16"
      by (simp_all add: word_le_nat_alt)
    then have "16 \<le> ?c - ?gzh" "?c - ?gzh \<le> - 16"
      by (simp_all only: d dd_def)
    then have "read_gzhdr m' ?gzh = read_gzhdr ?m4 ?gzh"
      unfolding m'' by (rule read_write_gzhdr_disjoint)
    then show ?thesis by (simp only: addr read_write_gzhdr)
  qed
qed

lemma gzalloc_alloc_layout_of:
  assumes "gzalloc_alloc st zone zstats flags va = Inr (st1, p)"
    and "zones st zone = Some zr"
    and "\<not> (preemption_level st \<noteq> 0 \<and> flags AND Z_NOWAIT \<noteq> 0)"
  shows "\<exists>gzaddr. gzalloc_alloc_layout (gzalloc_uf_mode st) (mem st) gzaddr (z_elem_size zr)
           (if startup_phase st \<ge> STARTUP_SUB_KMEM \<and> vm_page_zone st \<noteq> ZONE_NULL then zone
            else GZDEADZONE) = (mem st1, p)"
  using assms
  apply (simp add: gzalloc_alloc_def Let_def split: if_split_asm prod.split_asm)
  apply auto
  done

lemma ucast_ucast_32: "(e :: 64 word) \<le> 0xFFFFFFFF \<Longrightarrow> ucast (ucast e :: 32 word) = e"
proof -
  assume "e \<le> 0xFFFFFFFF"
  then have "e < 2 ^ 32" by (simp add: word_le_nat_alt word_less_nat_alt)
  then have tb: "take_bit 32 e = e"
    using less_mask_eq [of e 32] by (simp add: take_bit_eq_mask)
  have nb: "\<not> bit e n" if "32 \<le> n" for n
  proof -
    have "bit e n = bit (take_bit 32 e) n" by (simp add: tb)
    with that show ?thesis by (simp add: bit_take_bit_iff)
  qed
  show ?thesis
  proof (rule bit_word_eqI)
    fix n :: nat
    assume "n < LENGTH(64)"
    show "bit (ucast (ucast e :: 32 word) :: 64 word) n = bit e n"
      using nb [of n] by (cases "n < 32") (auto simp add: bit_simps)
  qed
qed

lemmas early_defs = early_live_state_def early_state_def

text \<open>
  C3, as claimed: for every tracked zone and every layout mode, the header read from
  the pointer that \<open>gzalloc_alloc\<close> returned has the zone as owner. This fails for an
  allocation made before the VM is ready: the element at \<open>0x8000010\<close> comes from the
  reserve, and the owner in its header is \<open>GZDEADZONE\<close>, not the zone at \<open>0x1000\<close>.
\<close>

theorem gzalloc_alloc_header_owner_counterexample:
  "gzalloc_alloc early_state 0x1000 0 0 0 = Inr (early_live_state, 0x8000010) \<and>
   gzone (read_gzhdr (mem early_live_state) (0x8000010 - GZHEADER_SIZE)) = GZDEADZONE \<and>
   GZDEADZONE \<noteq> 0x1000"
proof -
  have a: "gzalloc_alloc early_state 0x1000 0 0 0 = Inr (early_live_state, 0x8000010)"
    by (simp add: gzalloc_alloc_def Let_def early_defs example_defs const_defs page_defs
        gzalloc_alloc_layout_def OSAddAtomic64_SInt32_def SInt32_def cong: if_cong)
  have b: "gzone (read_gzhdr (mem early_live_state) (0x8000010 - GZHEADER_SIZE)) = GZDEADZONE"
    by (simp add: early_defs layout_overflow_eq page_defs read_write_gzhdr)
  show ?thesis using a b by (simp add: GZDEADZONE_def)
qed

text \<open>
  C3, amended: after \<open>gzalloc_alloc\<close> returns an allocation \<open>p\<close> of a zone with element
  size \<open>E\<close> (not the null pointer of a no-wait call with preemption disabled), the header
  read from \<open>p - H\<close> in overflow mode, and from \<open>p + E\<close> in underflow mode when
  \<open>E + H = P\<close> or \<open>E + 2H \<le> P\<close>, has the signature \<open>0xABADCAFE\<close>, the element size \<open>E\<close> cut
  to 32 bits, which is \<open>E\<close> itself below \<open>2^32\<close>, and as owner the zone when the VM is
  ready and \<open>vm_page_zone\<close> is set, the pre-VM sentinel \<open>GZDEADZONE\<close> otherwise.
\<close>

theorem gzalloc_alloc_header:
  assumes "gzalloc_alloc st zone zstats flags va = Inr (st1, p)"
    and "zones st zone = Some zr"
    and "\<not> (preemption_level st \<noteq> 0 \<and> flags AND Z_NOWAIT \<noteq> 0)"
    and "gzalloc_uf_mode st \<longrightarrow>
           z_elem_size zr + GZHEADER_SIZE = rounded_size (z_elem_size zr) \<or>
           unat (z_elem_size zr) + 2 * unat GZHEADER_SIZE \<le> unat (rounded_size (z_elem_size zr))"
    and "h = read_gzhdr (mem st1)
               (if gzalloc_uf_mode st then p + z_elem_size zr else p - GZHEADER_SIZE)"
  shows "gzsig h = GZALLOC_SIGNATURE \<and>
         gzsize h = ucast (z_elem_size zr) \<and>
         (z_elem_size zr \<le> 0xFFFFFFFF \<longrightarrow> ucast (gzsize h) = z_elem_size zr) \<and>
         gzone h = (if startup_phase st \<ge> STARTUP_SUB_KMEM \<and> vm_page_zone st \<noteq> ZONE_NULL
                    then zone else GZDEADZONE)"
proof -
  let ?owner = "if startup_phase st \<ge> STARTUP_SUB_KMEM \<and> vm_page_zone st \<noteq> ZONE_NULL
                then zone else GZDEADZONE"
  from gzalloc_alloc_layout_of [OF assms(1-3)] obtain gzaddr where
    l: "gzalloc_alloc_layout (gzalloc_uf_mode st) (mem st) gzaddr (z_elem_size zr) ?owner =
          (mem st1, p)" by blast
  have "h = \<lparr>gzone = ?owner, gzsize = ucast (z_elem_size zr), gzsig = GZALLOC_SIGNATURE\<rparr>"
  proof (cases "gzalloc_uf_mode st")
    case True
    with l assms(4,5) layout_underflow [of "mem st" gzaddr "z_elem_size zr" ?owner "mem st1" p]
    show ?thesis by simp
  next
    case False
    with l assms(5) layout_overflow [of "mem st" gzaddr "z_elem_size zr" ?owner "mem st1" p]
    show ?thesis by simp
  qed
  then show ?thesis by (simp add: ucast_ucast_32)
qed

text \<open>
  An allocation in \<open>free_state\<close>, for which the arena supplies the range at \<open>0x102000\<close>.
\<close>

theorem gzalloc_alloc_header_witness:
  "\<exists>st1. gzalloc_alloc free_state 0x1000 0 0 0x102000 = Inr (st1, 0x102010) \<and>
     read_gzhdr (mem st1) (0x102010 - GZHEADER_SIZE) =
       \<lparr>gzone = 0x1000, gzsize = 4080, gzsig = GZALLOC_SIGNATURE\<rparr>"
proof -
  obtain st1 where a: "gzalloc_alloc free_state 0x1000 0 0 0x102000 = Inr (st1, 0x102010)"
    by (simp add: gzalloc_alloc_def Let_def example_defs const_defs page_defs
        gzalloc_alloc_layout_def OSAddAtomic64_SInt32_def SInt32_def)
  have z: "zones free_state 0x1000 = Some tracked_zone" by (simp add: example_defs)
  have n: "\<not> (preemption_level free_state \<noteq> 0 \<and> (0 :: 32 word) AND Z_NOWAIT \<noteq> 0)" by simp
  have u: "gzalloc_uf_mode free_state \<longrightarrow>
           z_elem_size tracked_zone + GZHEADER_SIZE = rounded_size (z_elem_size tracked_zone) \<or>
           unat (z_elem_size tracked_zone) + 2 * unat GZHEADER_SIZE
             \<le> unat (rounded_size (z_elem_size tracked_zone))"
    by (simp add: example_defs)
  from gzalloc_alloc_header [OF a z n u refl] a show ?thesis
    by (auto simp add: example_defs const_defs gzhdr_t.equality)
qed

text \<open>
  Underflow mode with 4072-byte elements: the copy of the header, at offset 4080 of
  the element's page, covers the last eight bytes of the header at offset 4072. After
  the layout is written the header no longer holds the size and the signature: these
  fields hold the two halves of the owner's address.
\<close>

lemma gzalloc_alloc_layout_underflow_overlap:
  "read_gzhdr (fst (gzalloc_alloc_layout True (\<lambda>a. 0) 0x100000 4072 0x1000))
     (snd (gzalloc_alloc_layout True (\<lambda>a. 0) 0x100000 4072 0x1000) + 4072) =
   \<lparr>gzone = 0x1000, gzsize = 0x1000, gzsig = 0\<rparr>"
  by (simp add: gzalloc_alloc_layout_def Let_def mem_defs const_defs page_defs bzero_def)

subsection \<open>The residue and the header in overflow mode\<close>

text \<open>
  Rounding up to a page does not go below its argument, unless the sum wraps around.
\<close>

lemma round_page_ge:
  assumes "unat x + unat PAGE_MASK < 2 ^ 64"
  shows "x \<le> round_page x"
proof -
  let ?y = "x + 4095"
  from assms have a: "unat x + 4095 < 2 ^ 64" by (simp add: PAGE_MASK_def PAGE_SIZE_def)
  then have uy: "unat ?y = unat x + 4095" by (simp add: unat_add_lem [THEN iffD1])
  have s: "?y AND NOT 4095 = ?y - (?y AND 4095)"
  proof -
    have "?y - (?y AND 4095) = ?y AND NOT (?y AND 4095)"
      by (rule disjunctive_diff) (simp add: bit_simps)
    also have "\<dots> = ?y AND NOT 4095"
      by (rule bit_eqI) (auto simp add: bit_simps)
    finally show ?thesis by simp
  qed
  have le: "?y AND 4095 \<le> ?y" by (rule word_and_le2)
  have le2: "?y AND 4095 \<le> 4095" by (rule word_and_le1)
  have "unat (?y AND NOT 4095) = unat ?y - unat (?y AND 4095)"
    unfolding s using le by (rule unat_sub)
  moreover have "unat (?y AND 4095) \<le> 4095" using le2 by (simp add: word_le_nat_alt)
  ultimately have "unat x \<le> unat (?y AND NOT 4095)" using uy by simp
  then show ?thesis by (simp add: word_le_nat_alt round_page_def PAGE_MASK_def PAGE_SIZE_def)
qed

lemma residue_bounds:
  assumes "unat e + unat GZHEADER_SIZE + unat PAGE_MASK < 2 ^ 64"
  shows "unat (residue e) + unat e = unat (rounded_size e)"
    and "GZHEADER_SIZE \<le> residue e"
proof -
  from assms have n: "unat e + unat GZHEADER_SIZE < 2 ^ 64" by simp
  then have u: "unat (e + GZHEADER_SIZE) = unat e + unat GZHEADER_SIZE"
    by (simp add: unat_add_lem [THEN iffD1])
  with assms have "unat (e + GZHEADER_SIZE) + unat PAGE_MASK < 2 ^ 64" by simp
  then have "e + GZHEADER_SIZE \<le> rounded_size e"
    unfolding rounded_size_def by (rule round_page_ge)
  then have r: "unat e + unat GZHEADER_SIZE \<le> unat (rounded_size e)"
    using u by (simp add: word_le_nat_alt)
  then have "e \<le> rounded_size e" by (simp add: word_le_nat_alt)
  then have d: "unat (residue e) = unat (rounded_size e) - unat e"
    unfolding residue_def by (rule unat_sub)
  with r show "unat (residue e) + unat e = unat (rounded_size e)" by simp
  from d r show "GZHEADER_SIZE \<le> residue e" by (simp add: word_le_nat_alt)
qed

text \<open>
  The base that \<open>gzalloc_alloc\<close> hands to the layout: the address the arena supplied
  when the VM is ready and \<open>vm_page_zone\<close> is set, the start of the reserve otherwise.
\<close>

lemma gzalloc_alloc_layout_at:
  assumes "gzalloc_alloc st zone zstats flags va = Inr (st1, p)"
    and "zones st zone = Some zr"
    and "\<not> (preemption_level st \<noteq> 0 \<and> flags AND Z_NOWAIT \<noteq> 0)"
  shows "gzalloc_alloc_layout (gzalloc_uf_mode st) (mem st)
           (if STARTUP_SUB_KMEM \<le> startup_phase st \<and> vm_page_zone st \<noteq> ZONE_NULL then va
            else gzalloc_reserve st)
           (z_elem_size zr)
           (if STARTUP_SUB_KMEM \<le> startup_phase st \<and> vm_page_zone st \<noteq> ZONE_NULL then zone
            else GZDEADZONE) = (mem st1, p)"
  using assms
  apply (simp add: gzalloc_alloc_def Let_def split: if_split_asm prod.split_asm)
  apply auto
  done

text \<open>
  C2, amended: for every allocation that \<open>gzalloc_alloc\<close> returns in overflow mode (not
  the null pointer of a no-wait call with preemption disabled), from the range at
  \<open>base\<close>, with \<open>P = round_page (E + H)\<close> computed without wrap-around and
  \<open>residue = P - E\<close> as the allocator computes it: \<open>residue + E = P\<close>, as words and as
  numbers; the header is not a third summand but lies inside the residue, \<open>H \<le> residue\<close>;
  the element is returned at \<open>base + residue\<close> and ends where the range of \<open>P\<close> bytes
  ends, at \<open>base + P\<close>; and the header, with the signature, the size and the owner, is at
  \<open>base + residue - H\<close>, in the last \<open>H\<close> bytes of the residue.
\<close>

theorem gzalloc_alloc_overflow_residue:
  assumes "gzalloc_alloc st zone zstats flags va = Inr (st1, p)"
    and "zones st zone = Some zr"
    and "\<not> gzalloc_uf_mode st"
    and "\<not> (preemption_level st \<noteq> 0 \<and> flags AND Z_NOWAIT \<noteq> 0)"
    and "unat (z_elem_size zr) + unat GZHEADER_SIZE + unat PAGE_MASK < 2 ^ 64"
    and "base = (if STARTUP_SUB_KMEM \<le> startup_phase st \<and> vm_page_zone st \<noteq> ZONE_NULL
                 then va else gzalloc_reserve st)"
  shows "residue (z_elem_size zr) + z_elem_size zr = rounded_size (z_elem_size zr) \<and>
         unat (residue (z_elem_size zr)) + unat (z_elem_size zr) =
           unat (rounded_size (z_elem_size zr)) \<and>
         GZHEADER_SIZE \<le> residue (z_elem_size zr) \<and>
         p = base + residue (z_elem_size zr) \<and>
         p + z_elem_size zr = base + rounded_size (z_elem_size zr) \<and>
         read_gzhdr (mem st1) (base + residue (z_elem_size zr) - GZHEADER_SIZE) =
           \<lparr>gzone = (if STARTUP_SUB_KMEM \<le> startup_phase st \<and> vm_page_zone st \<noteq> ZONE_NULL
                      then zone else GZDEADZONE),
            gzsize = ucast (z_elem_size zr), gzsig = GZALLOC_SIGNATURE\<rparr>"
proof -
  let ?e = "z_elem_size zr"
  let ?owner = "if STARTUP_SUB_KMEM \<le> startup_phase st \<and> vm_page_zone st \<noteq> ZONE_NULL
                then zone else GZDEADZONE"
  from gzalloc_alloc_layout_at [OF assms(1,2,4)] assms(3,6)
  have l: "gzalloc_alloc_layout False (mem st) base ?e ?owner = (mem st1, p)" by simp
  then have p: "p = base + residue ?e" unfolding layout_overflow_eq by simp
  have h: "read_gzhdr (mem st1) (p - GZHEADER_SIZE) =
             \<lparr>gzone = ?owner, gzsize = ucast ?e, gzsig = GZALLOC_SIGNATURE\<rparr>"
    using l by (rule layout_overflow)
  have s: "residue ?e + ?e = rounded_size ?e" by (simp add: residue_def)
  have e: "p + ?e = base + rounded_size ?e" by (simp add: p residue_def)
  from residue_bounds [OF assms(5)] s p e h show ?thesis by simp
qed

text \<open>
  An allocation of the zone of 64-byte elements in \<open>overflow_state\<close>, from the range at
  \<open>0x100000\<close>: the residue is 4032, the element is at \<open>0x100fc0\<close> and the header at
  \<open>0x100fb0\<close>.
\<close>

theorem gzalloc_alloc_overflow_residue_witness:
  "\<exists>st1. gzalloc_alloc overflow_state 0x1000 0 0 0x100000 = Inr (st1, 0x100fc0) \<and>
     residue 64 = 4032 \<and> rounded_size 64 = 4096 \<and> GZHEADER_SIZE \<le> residue 64 \<and>
     (0x100fc0 :: 64 word) = 0x100000 + residue 64 \<and>
     read_gzhdr (mem st1) (0x100000 + residue 64 - GZHEADER_SIZE) =
       \<lparr>gzone = 0x1000, gzsize = 64, gzsig = GZALLOC_SIGNATURE\<rparr>"
proof -
  obtain st1 where a: "gzalloc_alloc overflow_state 0x1000 0 0 0x100000 = Inr (st1, 0x100fc0)"
    by (simp add: gzalloc_alloc_def Let_def overflow_state_def uf_state_def uf_zone_def
        example_state_def initial_state_def const_defs page_defs gzalloc_alloc_layout_def
        OSAddAtomic64_SInt32_def SInt32_def)
  have z: "zones overflow_state 0x1000 = Some uf_zone"
    by (simp add: overflow_state_def uf_state_def)
  have m: "\<not> gzalloc_uf_mode overflow_state" by (simp add: overflow_state_def)
  have n: "\<not> (preemption_level overflow_state \<noteq> 0 \<and> (0 :: 32 word) AND Z_NOWAIT \<noteq> 0)" by simp
  have w: "unat (z_elem_size uf_zone) + unat GZHEADER_SIZE + unat PAGE_MASK < 2 ^ 64"
    by (simp add: uf_zone_def page_defs)
  have b: "(0x100000 :: 64 word) =
             (if STARTUP_SUB_KMEM \<le> startup_phase overflow_state \<and>
                 vm_page_zone overflow_state \<noteq> ZONE_NULL
              then 0x100000 else gzalloc_reserve overflow_state)"
    by (simp add: overflow_state_def uf_state_def example_state_def initial_state_def
        const_defs ZONE_NULL_def)
  from gzalloc_alloc_overflow_residue [OF a z m n w b] a show ?thesis
    by (auto simp add: overflow_state_def uf_state_def uf_zone_def example_state_def
        initial_state_def const_defs ZONE_NULL_def page_defs)
qed

subsection \<open>The fill-pattern scan in underflow mode\<close>

lemmas uf_defs = uf_live_state_def uf_state_def uf_zone_def example_state_def initial_state_def

text \<open>
  The state \<open>uf_live_state\<close> is what \<open>gzalloc_alloc\<close> makes of \<open>uf_state\<close>, and the header of
  the element at \<open>0x101000\<close> is valid.
\<close>

lemma uf_state_alloc:
  "gzalloc_alloc uf_state 0x1000 0 0 0x100000 = Inr (uf_live_state, 0x101000)"
  by (simp add: gzalloc_alloc_def Let_def uf_defs const_defs page_defs gzalloc_alloc_layout_def
      OSAddAtomic64_SInt32_def SInt32_def cong: if_cong)

lemma uf_live_state_header:
  "read_gzhdr (mem uf_live_state) (0x101000 + 64) =
     \<lparr>gzone = 0x1000, gzsize = 64, gzsig = GZALLOC_SIGNATURE\<rparr>"
  by (simp add: uf_defs gzalloc_alloc_layout_def Let_def mem_defs const_defs page_defs bzero_def)

lemma uf_live_state_free:
  "gzalloc_free uf_live_state 0x1000 0 0x101000 =
     Inl (Fill_mismatch 0x101048 0x101000 0x40)"
  by (simp add: gzalloc_alloc_layout_def free_defs Let_def uf_defs const_defs page_defs
      mem_defs bzero_def dfree_scan.simps fill_scan.simps)

text \<open>
  C1: in underflow mode with the consistency checks enabled, \<open>gzalloc_free\<close> is to check
  the fill pattern from the end of the header, which is the header's address plus the
  size of the header, 16, up to the end of the element's page. The code starts at the
  header's address plus \<open>sizeof(gzh)\<close>, the size of a pointer, 8. In \<open>uf_live_state\<close> the
  element at \<open>0x101000\<close> has its header at \<open>[0x101040, 0x101050)\<close>; freeing it panics at the
  byte \<open>0x101048\<close>, which is the first byte of \<open>gzsize\<close> in the header and holds \<open>0x40\<close>.
\<close>

theorem gzalloc_free_underflow_scan_starts_in_header:
  "gzalloc_free uf_live_state 0x1000 0 0x101000 =
     Inl (Fill_mismatch (0x101040 + sizeof_gzh) 0x101000 0x40) \<and>
   0x101040 + sizeof_gzh < 0x101040 + GZHEADER_SIZE"
  using uf_live_state_free by (simp add: sizeof_gzh_def GZHEADER_SIZE_def)

text \<open>
  The same for every state: in underflow mode the scan starts at the header's address
  plus 8, and the byte at the header's address plus 12 is the low byte of a valid
  signature, \<open>0xFE\<close>. When that byte lies below the end of the element's page, the
  consistency checks of a free always end in a panic, and a fill-pattern panic names a
  byte of the header. So no free returns in underflow mode with the checks enabled,
  unless the element ends within 12 bytes of the end of its page.
\<close>

lemma fill_scan_finds:
  "gzc \<le> x \<Longrightarrow> x < e \<Longrightarrow> m x \<noteq> gzalloc_fill_pattern \<Longrightarrow>
     \<exists>y. fill_scan m gzc e = Some y \<and> gzc \<le> y \<and> y \<le> x"
proof (induction m gzc e rule: fill_scan.induct)
  case (1 m gzc e)
  from "1.prems" have lt: "gzc < e" by simp
  show ?case
  proof (cases "m gzc = gzalloc_fill_pattern")
    case True
    with "1.prems" have "gzc \<noteq> x" by auto
    with "1.prems" have "gzc + 1 \<le> x" "gzc \<le> gzc + 1" by unat_arith+
    with "1.IH" [OF lt True _ "1.prems"(2,3)] lt True show ?thesis
      by (subst fill_scan.simps) auto
  next
    case False
    with lt "1.prems" show ?thesis
      by (subst fill_scan.simps) simp
  qed
qed

lemma load32_low_byte: "ucast (load32 m a) = m a"
  by (rule bit_word_eqI) (auto simp add: load32_def bit_simps)

lemma gzalloc_free_consistency_underflow_panics:
  assumes "gzalloc_uf_mode st" and "gzalloc_consistency_checks st"
    and "gzh + 8 \<le> gzh + 12" and "gzh + 12 < (addr AND NOT PAGE_MASK) + PAGE_SIZE"
  shows "\<exists>p. gzalloc_free_consistency st zone zr addr gzh = Some p \<and>
           (\<forall>gzc a c. p = Fill_mismatch gzc a c \<longrightarrow> gzh + 8 \<le> gzc \<and> gzc \<le> gzh + 12)"
proof (cases "gzsig (read_gzhdr (mem st) gzh) = GZALLOC_SIGNATURE")
  case False
  with assms show ?thesis by (simp add: gzalloc_free_consistency_def Let_def)
next
  case True
  then have "load32 (mem st) (gzh + 12) = GZALLOC_SIGNATURE" by (simp add: read_gzhdr_def)
  then have "mem st (gzh + 12) = ucast GZALLOC_SIGNATURE"
    using load32_low_byte [of "mem st" "gzh + 12"] by simp
  then have ne: "mem st (gzh + 12) \<noteq> gzalloc_fill_pattern"
    by (simp add: GZALLOC_SIGNATURE_def gzalloc_fill_pattern_def)
  from fill_scan_finds [of "gzh + 8" "gzh + 12" _ "mem st", OF assms(3,4) ne] obtain y where
    "fill_scan (mem st) (gzh + 8) ((addr AND NOT PAGE_MASK) + PAGE_SIZE) = Some y"
    "gzh + 8 \<le> y" "y \<le> gzh + 12" by blast
  with assms(1,2) show ?thesis
    by (simp add: gzalloc_free_consistency_def Let_def checkstart_def checkend_def sizeof_gzh_def)
qed

lemma gzalloc_free_underflow_panics:
  assumes "gzalloc_uf_mode st" and "gzalloc_consistency_checks st"
    and "zones st zone = Some zr"
    and "addr + z_elem_size zr + 8 \<le> addr + z_elem_size zr + 12"
    and "addr + z_elem_size zr + 12 < (addr AND NOT PAGE_MASK) + PAGE_SIZE"
  shows "\<exists>p. gzalloc_free st zone zstats addr = Inl p"
proof -
  from gzalloc_free_consistency_underflow_panics [OF assms(1,2,4,5), of zone zr]
  obtain p where "gzalloc_free_consistency st zone zr addr (addr + z_elem_size zr) = Some p"
    by blast
  with assms(1,3) show ?thesis
    by (simp add: gzalloc_free_def Let_def free_gzh_def split: option.split)
qed

text \<open>
  In overflow mode the scan covers the residue below the header. \<open>gzalloc_alloc\<close> zeroes
  the whole range (\<open>bzero\<close>, "All zone allocations are always zeroed") and stores no
  fill pattern, so the free of an element just allocated panics at the first byte of
  the range when the residue is larger than the header.
\<close>

lemma gzalloc_alloc_then_free_overflow:
  "\<exists>st1. gzalloc_alloc overflow_state 0x1000 0 0 0x100000 = Inr (st1, 0x100fc0) \<and>
     gzalloc_free st1 0x1000 0 0x100fc0 = Inl (Fill_mismatch 0x100000 0x100fc0 0)"
  by (simp add: gzalloc_alloc_def gzalloc_alloc_layout_def free_defs Let_def overflow_state_def
      uf_state_def uf_zone_def example_state_def initial_state_def const_defs page_defs
      mem_defs bzero_def OSAddAtomic64_SInt32_def SInt32_def dfree_scan.simps fill_scan.simps)

subsection \<open>Reverse lookup\<close>

lemmas lookup_defs = underrun_state_def lookup_state_def

text \<open>
  C5, as claimed: when \<open>gzalloc_element_size\<close> returns true it reports the owner zone of
  the header and the element size recorded in the header. This fails in
  \<open>underrun_state\<close>: the header found for the address \<open>0x100010\<close> is at \<open>0x100000\<close> and
  records the size 100, and the size reported is 4080, the element size of the zone.
\<close>

theorem gzalloc_element_size_recorded_counterexample:
  "gzalloc_element_size underrun_state 0x100010 = Inr (Some (0x1000, 4080)) \<and>
   locate_gzhdr underrun_state 0x100010
     \<lparr>vme_start = 0x100000, vme_end = 0x102000, vme_atomic = True\<rparr> = Inr 0x100000 \<and>
   gzsize (read_gzhdr (mem underrun_state) 0x100000) = 100"
  by (simp add: gzalloc_element_size_def locate_gzhdr_def vm_map_lookup_entry_def
      kmem_range_contains_def lookup_defs example_defs mem_defs const_defs page_defs
      sig_scan.simps Let_def)

text \<open>
  C5, amended: \<open>gzalloc_element_size\<close> returns false if and only if the engine is disabled
  or the address lies outside the arena; and when it returns true, it has found a map
  entry and a header with a valid signature, and it reports the owner zone of that
  header, which is a tracked zone, and the element size of that zone,
  \<open>zone_elem_size(gzh->gzone)\<close>. The size recorded in the header is not read.
\<close>

theorem gzalloc_element_size_result:
  "(gzalloc_element_size st a = Inr None \<longleftrightarrow>
      \<not> gzalloc_mode st \<or> \<not> kmem_range_contains (gzalloc_range st) a) \<and>
   (gzalloc_element_size st a = Inr (Some (z, sz)) \<longrightarrow>
      (\<exists>gzvme gzh zr.
         vm_map_lookup_entry (gzalloc_map_entries st) a = Some gzvme \<and>
         locate_gzhdr st a gzvme = Inr gzh \<and>
         gzsig (read_gzhdr (mem st) gzh) = GZALLOC_SIGNATURE \<and>
         z = gzone (read_gzhdr (mem st) gzh) \<and>
         zones st z = Some zr \<and> z_gzalloc_tracked zr \<and> sz = z_elem_size zr))"
  by (auto simp add: gzalloc_element_size_def Let_def
      split: option.splits sum.splits if_splits)

text \<open>
  In \<open>lookup_state\<close> the address \<open>0x100010\<close> belongs to the zone at \<open>0x1000\<close>, whose elements
  have 4080 bytes.
\<close>

theorem gzalloc_element_size_result_witness:
  "gzalloc_element_size lookup_state 0x100010 = Inr (Some (0x1000, 4080)) \<and>
   (\<exists>gzh zr. gzsig (read_gzhdr (mem lookup_state) gzh) = GZALLOC_SIGNATURE \<and>
      gzone (read_gzhdr (mem lookup_state) gzh) = 0x1000 \<and>
      zones lookup_state 0x1000 = Some zr \<and> z_gzalloc_tracked zr \<and> z_elem_size zr = 4080)"
proof -
  have h: "gzalloc_element_size lookup_state 0x100010 = Inr (Some (0x1000, 4080))"
    by (simp add: gzalloc_element_size_def locate_gzhdr_def vm_map_lookup_entry_def
        kmem_range_contains_def lookup_defs example_defs mem_defs const_defs page_defs
        sig_scan.simps Let_def)
  from gzalloc_element_size_result [of lookup_state "0x100010" "0x1000" 4080] h
  show ?thesis by metis
qed

subsection \<open>The free cache as a queue\<close>

lemma released_append: "released (xs @ ys) = released xs @ released ys"
  by (induction xs rule: released.induct) auto

lemma gzalloc_free_account_frame:
  "mem (gzalloc_free_account st zone zstats zr fa) = mem st \<and>
   gzfc_size (gzalloc_free_account st zone zstats zr fa) = gzfc_size st \<and>
   startup_phase (gzalloc_free_account st zone zstats zr fa) = startup_phase st \<and>
   gzalloc_uf_mode (gzalloc_free_account st zone zstats zr fa) = gzalloc_uf_mode st"
  by (simp add: gzalloc_free_account_def Let_def)

lemma gzalloc_free_account_zone:
  "\<exists>zr2. zones (gzalloc_free_account st zone zstats zr fa) zone = Some zr2 \<and>
     gz zr2 = gz zr \<and> z_elem_size zr2 = z_elem_size zr"
  by (simp add: gzalloc_free_account_def Let_def)

lemma gzalloc_free_account_released:
  "released (arena_calls (gzalloc_free_account st zone zstats zr fa)) =
     released (arena_calls st) @
       (if fa \<noteq> 0 then [(fa, rounded_size (z_elem_size zr) + PAGE_SIZE)] else [])"
  by (simp add: gzalloc_free_account_def Let_def released_append)

lemma gzfc_insert_elem_size:
  "gzfc_insert n zr x = Inr (fa, zr1) \<Longrightarrow> z_elem_size zr1 = z_elem_size zr"
  by (auto simp add: gzfc_insert_def Let_def split: if_split_asm)

lemma gzalloc_free_release_step:
  assumes "gzalloc_free_release st zone zstats zr saddr = Inr st1"
  shows "\<exists>fa zr1 zr2. gzfc_insert (gzfc_size st) zr saddr = Inr (fa, zr1) \<and>
           zones st1 zone = Some zr2 \<and> gz zr2 = gz zr1 \<and> z_elem_size zr2 = z_elem_size zr \<and>
           released (arena_calls st1) = released (arena_calls st) @
             (if fa \<noteq> 0 then [(fa, rounded_size (z_elem_size zr) + PAGE_SIZE)] else []) \<and>
           mem st1 = mem st \<and> gzfc_size st1 = gzfc_size st \<and>
           startup_phase st1 = startup_phase st \<and> gzalloc_uf_mode st1 = gzalloc_uf_mode st"
proof -
  define st' where "st' = (if gzfc_size st \<noteq> 0
      then st\<lparr>arena_calls := arena_calls st @
          [Arena_protect saddr (saddr + rounded_size (z_elem_size zr) + 1 * PAGE_SIZE)
             (gzalloc_prot st)]\<rparr>
      else st)"
  have n: "gzfc_size st' = gzfc_size st" and r: "released (arena_calls st') = released (arena_calls st)"
    and f: "mem st' = mem st" "startup_phase st' = startup_phase st"
      "gzalloc_uf_mode st' = gzalloc_uf_mode st"
    by (simp_all add: st'_def released_append)
  from assms obtain fa zr1 where i: "gzfc_insert (gzfc_size st) zr saddr = Inr (fa, zr1)"
    and s: "st1 = gzalloc_free_account st' zone zstats zr1 fa"
    unfolding gzalloc_free_release_def Let_def st'_def [symmetric] n
    by (auto split: if_split_asm sum.split_asm)
  from gzalloc_free_account_zone [of st' zone zstats zr1 fa] obtain zr2 where
    z: "zones st1 zone = Some zr2" "gz zr2 = gz zr1" "z_elem_size zr2 = z_elem_size zr1"
    unfolding s by blast
  have e: "z_elem_size zr1 = z_elem_size zr" using i by (rule gzfc_insert_elem_size)
  show ?thesis
    using i z e gzalloc_free_account_released [of st' zone zstats zr1 fa]
      gzalloc_free_account_frame [of st' zone zstats zr1 fa]
    by (simp add: s n r f)
qed

lemma gzalloc_free_step:
  assumes "gzalloc_free st zone zstats addr = Inr st1"
    and "zones st zone = Some zr"
    and "STARTUP_SUB_KMEM \<le> startup_phase st"
    and "gzone (read_gzhdr (mem st) (free_gzh st zr addr)) \<noteq> GZDEADZONE"
  shows "\<exists>fa zr1 zr2. gzfc_insert (gzfc_size st) zr (free_saddr st zr addr) = Inr (fa, zr1) \<and>
           zones st1 zone = Some zr2 \<and> gz zr2 = gz zr1 \<and> z_elem_size zr2 = z_elem_size zr \<and>
           released (arena_calls st1) = released (arena_calls st) @
             (if fa \<noteq> 0 then [(fa, rounded_size (z_elem_size zr) + PAGE_SIZE)] else []) \<and>
           mem st1 = mem st \<and> gzfc_size st1 = gzfc_size st \<and>
           startup_phase st1 = startup_phase st \<and> gzalloc_uf_mode st1 = gzalloc_uf_mode st"
proof -
  define st' where "st' = (if preemption_level st \<noteq> 0
      then st\<lparr>pdzfree_count := pdzfree_count st + 1\<rparr> else st)"
  have f: "gzfc_size st' = gzfc_size st" "arena_calls st' = arena_calls st" "mem st' = mem st"
    "startup_phase st' = startup_phase st" "gzalloc_uf_mode st' = gzalloc_uf_mode st"
    by (simp_all add: st'_def)
  from assms have "gzalloc_free_release st' zone zstats zr (free_saddr st zr addr) = Inr st1"
    unfolding gzalloc_free_def Let_def st'_def [symmetric]
    by (simp split: if_split_asm option.split_asm)
  from gzalloc_free_release_step [OF this] show ?thesis
    by (simp add: f)
qed

lemma rotate_hd:
  assumes "i < length xs"
  shows "hd (rotate i xs) = xs ! i"
  using assms by (simp add: rotate_drop_take hd_append hd_drop_conv_nth)

lemma rotate_update:
  assumes "i < length xs"
  shows "rotate (Suc i) (xs[i := x]) = tl (rotate i xs) @ [x]"
proof -
  have d: "drop i xs = xs ! i # drop (Suc i) xs"
    using assms by (simp add: Cons_nth_drop_Suc)
  have t: "tl (rotate i xs) = drop (Suc i) xs @ take i xs"
    using assms by (simp add: rotate_drop_take d)
  have u: "take (Suc i) (xs[i := x]) = take i xs @ [x]"
    using assms by (simp add: take_Suc_conv_app_nth)
  show ?thesis
  proof (cases "Suc i < length xs")
    case True
    then have "rotate (Suc i) (xs[i := x]) = drop (Suc i) xs @ take i xs @ [x]"
      by (simp add: rotate_drop_take u)
    then show ?thesis by (simp only: t append_assoc)
  next
    case False
    with assms have l: "Suc i = length xs" by simp
    then have "rotate (Suc i) (xs[i := x]) = xs[i := x]" by (simp add: rotate_id)
    moreover have "take (Suc i) (xs[i := x]) = xs[i := x]"
      using l by (intro take_all) simp
    moreover have "drop (Suc i) xs = []" using l by simp
    ultimately have "rotate (Suc i) (xs[i := x]) = drop (Suc i) xs @ take i xs @ [x]"
      by (simp only: u append_Nil)
    then show ?thesis by (simp only: t append_assoc)
  qed
qed

lemma gzfc_insert_window:
  assumes "n \<noteq> 0" and "length (gzfc (gz zr)) = unat n" and "gzfc_index (gz zr) \<le> n"
  shows "\<exists>zr1. gzfc_insert n zr x =
             Inr (hd (rotate (unat (gzfc_index (gz zr))) (gzfc (gz zr))), zr1) \<and>
           length (gzfc (gz zr1)) = unat n \<and> gzfc_index (gz zr1) \<le> n \<and>
           rotate (unat (gzfc_index (gz zr1))) (gzfc (gz zr1)) =
             tl (rotate (unat (gzfc_index (gz zr))) (gzfc (gz zr))) @ [x]"
proof -
  define ring where "ring = gzfc (gz zr)"
  define idx where "idx = (if gzfc_index (gz zr) \<ge> n then 0 else gzfc_index (gz zr))"
  have N: "0 < unat n" using assms(1) by (simp add: unat_gt_0)
  have lt: "unat idx < length ring"
    using assms N by (auto simp add: idx_def ring_def word_le_nat_alt word_less_nat_alt)
  have same: "rotate (unat (gzfc_index (gz zr))) ring = rotate (unat idx) ring"
  proof (cases "gzfc_index (gz zr) \<ge> n")
    case True
    with assms(3) have "gzfc_index (gz zr) = n" by simp
    then show ?thesis using assms(2) by (simp add: idx_def ring_def rotate_id)
  next
    case False
    then show ?thesis by (simp add: idx_def)
  qed
  have "idx < n" using lt assms(2) by (simp add: ring_def word_less_nat_alt)
  then have suc: "unat (idx + 1) = Suc (unat idx)" and le: "idx + 1 \<le> n"
    by unat_arith+
  have ins: "gzfc_insert n zr x =
      Inr (ring ! unat idx, zr\<lparr>gz := \<lparr>gzfc_index = idx + 1, gzfc = ring[unat idx := x]\<rparr>\<rparr>)"
    using assms(1) lt by (simp add: gzfc_insert_def Let_def idx_def ring_def)
  show ?thesis
    using ins lt le assms(2) rotate_hd [OF lt] rotate_update [OF lt, of x]
    by (simp add: same suc ring_def [symmetric])
qed

lemma free_addr_cong:
  assumes "gzalloc_uf_mode st1 = gzalloc_uf_mode st" and "z_elem_size zr2 = z_elem_size zr"
  shows "free_saddr st1 zr2 = free_saddr st zr" and "free_gzh st1 zr2 = free_gzh st zr"
  using assms by (simp_all add: free_saddr_def free_gzh_def fun_eq_iff)

lemma gzalloc_frees_window:
  assumes "gzalloc_frees st zone zstats addrs = Inr st'"
    and "zones st zone = Some zr"
    and "gzfc_size st \<noteq> 0"
    and "length (gzfc (gz zr)) = unat (gzfc_size st)"
    and "gzfc_index (gz zr) \<le> gzfc_size st"
    and "STARTUP_SUB_KMEM \<le> startup_phase st"
    and "\<forall>a \<in> set addrs. gzone (read_gzhdr (mem st) (free_gzh st zr a)) \<noteq> GZDEADZONE"
    and "w = rotate (unat (gzfc_index (gz zr))) (gzfc (gz zr)) @ map (free_saddr st zr) addrs"
  shows "\<exists>zr'. zones st' zone = Some zr' \<and>
           length (gzfc (gz zr')) = unat (gzfc_size st) \<and>
           gzfc_index (gz zr') \<le> gzfc_size st \<and>
           rotate (unat (gzfc_index (gz zr'))) (gzfc (gz zr')) = drop (length addrs) w \<and>
           released (arena_calls st') = released (arena_calls st) @
             map (\<lambda>b. (b, rounded_size (z_elem_size zr) + PAGE_SIZE))
               (filter (\<lambda>b. b \<noteq> 0) (take (length addrs) w))"
  using assms
proof (induction addrs arbitrary: st zr w)
  case Nil
  then show ?case by simp
next
  case (Cons a addrs)
  let ?n = "gzfc_size st"
  let ?win = "rotate (unat (gzfc_index (gz zr))) (gzfc (gz zr))"
  let ?x = "free_saddr st zr a"
  from Cons.prems(1) obtain st1 where f: "gzalloc_free st zone zstats a = Inr st1"
    and r: "gzalloc_frees st1 zone zstats addrs = Inr st'"
    by (auto split: sum.split_asm)
  from Cons.prems(7) have oa: "gzone (read_gzhdr (mem st) (free_gzh st zr a)) \<noteq> GZDEADZONE"
    by simp
  from gzalloc_free_step [OF f Cons.prems(2) Cons.prems(6) oa] obtain fa zr1 zr2 where
    ins: "gzfc_insert ?n zr ?x = Inr (fa, zr1)"
    and z2: "zones st1 zone = Some zr2" "gz zr2 = gz zr1" "z_elem_size zr2 = z_elem_size zr"
    and rel: "released (arena_calls st1) = released (arena_calls st) @
               (if fa \<noteq> 0 then [(fa, rounded_size (z_elem_size zr) + PAGE_SIZE)] else [])"
    and fr: "mem st1 = mem st" "gzfc_size st1 = ?n" "startup_phase st1 = startup_phase st"
      "gzalloc_uf_mode st1 = gzalloc_uf_mode st"
    by blast
  from gzfc_insert_window [OF Cons.prems(3) Cons.prems(4) Cons.prems(5), of ?x] ins
  have fa: "fa = hd ?win"
    and l1: "length (gzfc (gz zr1)) = unat ?n" and i1: "gzfc_index (gz zr1) \<le> ?n"
    and w1: "rotate (unat (gzfc_index (gz zr1))) (gzfc (gz zr1)) = tl ?win @ [?x]"
    by auto
  have ne: "?win \<noteq> []"
    using Cons.prems(3) Cons.prems(4) by (auto simp add: unat_eq_0)
  note cong = free_addr_cong [OF fr(4) z2(3)]
  define w' where "w' = rotate (unat (gzfc_index (gz zr2))) (gzfc (gz zr2)) @
                          map (free_saddr st1 zr2) addrs"
  have w': "w' = tl w" 
    using ne by (simp add: w'_def z2(2) w1 cong Cons.prems(8))
  have hdw: "w = hd ?win # w'"
    using ne by (simp add: w' Cons.prems(8))
  have "\<exists>zr'. zones st' zone = Some zr' \<and>
           length (gzfc (gz zr')) = unat (gzfc_size st1) \<and>
           gzfc_index (gz zr') \<le> gzfc_size st1 \<and>
           rotate (unat (gzfc_index (gz zr'))) (gzfc (gz zr')) = drop (length addrs) w' \<and>
           released (arena_calls st') = released (arena_calls st1) @
             map (\<lambda>b. (b, rounded_size (z_elem_size zr2) + PAGE_SIZE))
               (filter (\<lambda>b. b \<noteq> 0) (take (length addrs) w'))"
  proof (rule Cons.IH [OF r z2(1)])
    show "gzfc_size st1 \<noteq> 0" using Cons.prems(3) by (simp add: fr)
    show "length (gzfc (gz zr2)) = unat (gzfc_size st1)" by (simp add: z2(2) l1 fr)
    show "gzfc_index (gz zr2) \<le> gzfc_size st1" by (simp add: z2(2) i1 fr)
    show "STARTUP_SUB_KMEM \<le> startup_phase st1" using Cons.prems(6) by (simp add: fr)
    show "\<forall>a \<in> set addrs. gzone (read_gzhdr (mem st1) (free_gzh st1 zr2 a)) \<noteq> GZDEADZONE"
      using Cons.prems(7) by (simp add: fr cong)
    show "w' = rotate (unat (gzfc_index (gz zr2))) (gzfc (gz zr2)) @
                 map (free_saddr st1 zr2) addrs" by (simp add: w'_def)
  qed
  then obtain zr' where "zones st' zone = Some zr'"
    "length (gzfc (gz zr')) = unat ?n" "gzfc_index (gz zr') \<le> ?n"
    "rotate (unat (gzfc_index (gz zr'))) (gzfc (gz zr')) = drop (length addrs) w'"
    "released (arena_calls st') = released (arena_calls st1) @
       map (\<lambda>b. (b, rounded_size (z_elem_size zr) + PAGE_SIZE))
         (filter (\<lambda>b. b \<noteq> 0) (take (length addrs) w'))"
    by (auto simp add: fr z2(3))
  then show ?case
    by (simp add: rel fa hdw)
qed

lemma gzalloc_frees_no_cache:
  assumes "gzalloc_frees st zone zstats addrs = Inr st'"
    and "zones st zone = Some zr"
    and "gzfc_size st = 0"
    and "STARTUP_SUB_KMEM \<le> startup_phase st"
    and "\<forall>a \<in> set addrs. gzone (read_gzhdr (mem st) (free_gzh st zr a)) \<noteq> GZDEADZONE"
  shows "\<exists>zr'. zones st' zone = Some zr' \<and> gz zr' = gz zr \<and>
           released (arena_calls st') = released (arena_calls st) @
             map (\<lambda>b. (b, rounded_size (z_elem_size zr) + PAGE_SIZE))
               (filter (\<lambda>b. b \<noteq> 0) (map (free_saddr st zr) addrs))"
  using assms
proof (induction addrs arbitrary: st zr)
  case Nil
  then show ?case by simp
next
  case (Cons a addrs)
  let ?x = "free_saddr st zr a"
  from Cons.prems(1) obtain st1 where f: "gzalloc_free st zone zstats a = Inr st1"
    and r: "gzalloc_frees st1 zone zstats addrs = Inr st'"
    by (auto split: sum.split_asm)
  from Cons.prems(5) have oa: "gzone (read_gzhdr (mem st) (free_gzh st zr a)) \<noteq> GZDEADZONE"
    by simp
  from gzalloc_free_step [OF f Cons.prems(2) Cons.prems(4) oa] obtain fa zr1 zr2 where
    ins: "gzfc_insert (gzfc_size st) zr ?x = Inr (fa, zr1)"
    and z2: "zones st1 zone = Some zr2" "gz zr2 = gz zr1" "z_elem_size zr2 = z_elem_size zr"
    and rel: "released (arena_calls st1) = released (arena_calls st) @
               (if fa \<noteq> 0 then [(fa, rounded_size (z_elem_size zr) + PAGE_SIZE)] else [])"
    and fr: "mem st1 = mem st" "gzfc_size st1 = gzfc_size st"
      "startup_phase st1 = startup_phase st" "gzalloc_uf_mode st1 = gzalloc_uf_mode st"
    by blast
  from ins Cons.prems(3) have fa: "fa = ?x" and zr1: "zr1 = zr"
    by (auto simp add: gzfc_insert_def)
  note cong = free_addr_cong [OF fr(4) z2(3)]
  have "\<exists>zr'. zones st' zone = Some zr' \<and> gz zr' = gz zr2 \<and>
           released (arena_calls st') = released (arena_calls st1) @
             map (\<lambda>b. (b, rounded_size (z_elem_size zr2) + PAGE_SIZE))
               (filter (\<lambda>b. b \<noteq> 0) (map (free_saddr st1 zr2) addrs))"
  proof (rule Cons.IH [OF r z2(1)])
    show "gzfc_size st1 = 0" using Cons.prems(3) by (simp add: fr)
    show "STARTUP_SUB_KMEM \<le> startup_phase st1" using Cons.prems(4) by (simp add: fr)
    show "\<forall>a \<in> set addrs. gzone (read_gzhdr (mem st1) (free_gzh st1 zr2 a)) \<noteq> GZDEADZONE"
      using Cons.prems(5) by (simp add: fr cong)
  qed
  then show ?case
    by (auto simp add: rel fa zr1 z2 cong)
qed

text \<open>
  C4: a tracked zone whose free cache has capacity \<open>N = gzfc_size\<close> and starts empty (all
  slots zero, insertion index 0) is given \<open>N + k\<close> successive frees, none of them of an
  early allocation, all of allocations with a base other than null, and all of them
  return. Then the ranges released to the arena by \<open>kmem_free\<close> are exactly the bases of
  the first \<open>k\<close> frees, in the order of the frees; the free cache still has \<open>N\<close> slots,
  and read round from its insertion index it holds the bases of the last \<open>N\<close> frees, in
  the order of the frees.
\<close>

theorem gzalloc_free_cache_fifo:
  assumes "gzalloc_frees st zone zstats addrs = Inr st'"
    and "zones st zone = Some zr"
    and "gzfc (gz zr) = replicate (unat (gzfc_size st)) 0" and "gzfc_index (gz zr) = 0"
    and "STARTUP_SUB_KMEM \<le> startup_phase st"
    and "\<forall>a \<in> set addrs. gzone (read_gzhdr (mem st) (free_gzh st zr a)) \<noteq> GZDEADZONE"
    and "\<forall>a \<in> set addrs. free_saddr st zr a \<noteq> 0"
    and "length addrs = unat (gzfc_size st) + k"
  shows "\<exists>zr'. zones st' zone = Some zr' \<and>
           released (arena_calls st') = released (arena_calls st) @
             map (\<lambda>a. (free_saddr st zr a, rounded_size (z_elem_size zr) + PAGE_SIZE))
               (take k addrs) \<and>
           length (gzfc (gz zr')) = unat (gzfc_size st) \<and>
           rotate (unat (gzfc_index (gz zr'))) (gzfc (gz zr')) =
             map (free_saddr st zr) (drop k addrs)"
proof (cases "gzfc_size st = 0")
  case True
  from assms(7) have nz: "filter (\<lambda>b. b \<noteq> 0) (map (free_saddr st zr) addrs) =
      map (free_saddr st zr) addrs"
    by (simp add: filter_id_conv)
  from gzalloc_frees_no_cache [OF assms(1,2) True assms(5,6)] assms(3,8) True
  show ?thesis
    by (auto simp add: nz comp_def)
next
  case False
  define N where "N = unat (gzfc_size st)"
  define xs where "xs = map (free_saddr st zr) addrs"
  define w where "w = rotate (unat (gzfc_index (gz zr))) (gzfc (gz zr)) @ xs"
  have w: "w = replicate N 0 @ xs"
    by (simp add: w_def assms(3,4) N_def)
  have len: "length (gzfc (gz zr)) = unat (gzfc_size st)" by (simp add: assms(3))
  have idx: "gzfc_index (gz zr) \<le> gzfc_size st" by (simp add: assms(4))
  have lx: "length xs = N + k" by (simp add: xs_def assms(8) N_def)
  have d: "drop (length addrs) w = drop k xs"
    by (simp add: w assms(8) N_def)
  have "take (length addrs) w = replicate N 0 @ take k xs"
    by (simp add: w assms(8) N_def)
  moreover have "filter (\<lambda>b. b \<noteq> 0) (take k xs) = take k xs"
    using assms(7) by (auto simp add: filter_id_conv xs_def dest!: in_set_takeD)
  ultimately have t: "filter (\<lambda>b. b \<noteq> 0) (take (length addrs) w) = take k xs"
    by simp
  have weq: "w = rotate (unat (gzfc_index (gz zr))) (gzfc (gz zr)) @
                 map (free_saddr st zr) addrs"
    by (simp add: w_def xs_def)
  from gzalloc_frees_window [OF assms(1,2) False len idx assms(5,6) weq]
  obtain zr' where z: "zones st' zone = Some zr'"
    and l: "length (gzfc (gz zr')) = unat (gzfc_size st)"
    and r: "rotate (unat (gzfc_index (gz zr'))) (gzfc (gz zr')) = drop (length addrs) w"
    and rel: "released (arena_calls st') = released (arena_calls st) @
             map (\<lambda>b. (b, rounded_size (z_elem_size zr) + PAGE_SIZE))
               (filter (\<lambda>b. b \<noteq> 0) (take (length addrs) w))"
    by blast
  have r': "rotate (unat (gzfc_index (gz zr'))) (gzfc (gz zr')) =
      map (free_saddr st zr) (drop k addrs)"
    by (simp only: r d xs_def drop_map)
  have rel': "released (arena_calls st') = released (arena_calls st) @
             map (\<lambda>a. (free_saddr st zr a, rounded_size (z_elem_size zr) + PAGE_SIZE))
               (take k addrs)"
    by (simp only: rel t xs_def take_map map_map comp_def)
  from z l r' rel' show ?thesis by blast
qed

text \<open>
  The fields of \<open>three_live_state\<close> that a free reads, and its three headers.
\<close>

lemma word_le_one_iff: "x \<le> 1 \<longleftrightarrow> x = 0 \<or> x = 1" for x :: "'a::len word"
  by (metis word_le_less_eq word_less_1 word_order.extremum)

lemma three_live_state_fields:
  "zones three_live_state = (\<lambda>z. None)(0x1000 \<mapsto> tracked_zone)"
  "gzalloc_uf_mode three_live_state = False"
  "gzfc_size three_live_state = 2"
  "gzalloc_dfree_check three_live_state = True"
  "gzalloc_consistency_checks three_live_state = True"
  "startup_phase three_live_state = STARTUP_SUB_KMEM"
  "preemption_level three_live_state = 0"
  "vm_map_protect_kr three_live_state = (\<lambda>a. KERN_SUCCESS)"
  "arena_calls three_live_state = []"
  "gzalloc_prot three_live_state = VM_PROT_NONE"
  "percpu_stats three_live_state = (\<lambda>zstats. \<lparr>zs_mem_allocated = 0, zs_mem_freed = 0\<rparr>)"
  "gzalloc_freed three_live_state = 0"
  "gzalloc_wasted three_live_state = 0"
  by (simp_all add: three_live_state_def free_state_def example_state_def initial_state_def)

lemma three_live_state_headers:
  "read_gzhdr (mem three_live_state) 0x100000 = example_header"
  "read_gzhdr (mem three_live_state) 0x102000 = example_header"
  "read_gzhdr (mem three_live_state) 0x104000 = example_header"
  by (simp_all add: three_live_state_def free_state_def example_header_def mem_defs const_defs)

lemma tracked_zone_fields:
  "z_self tracked_zone = 0x1000" "z_elem_size tracked_zone = 4080"
  "z_gzalloc_tracked tracked_zone = True" "gz tracked_zone = \<lparr>gzfc_index = 0, gzfc = [0, 0]\<rparr>"
  by (simp_all add: tracked_zone_def)

lemma example_header_fields:
  "gzone example_header = 0x1000" "gzsize example_header = 4080"
  "gzsig example_header = GZALLOC_SIGNATURE"
  by (simp_all add: example_header_def)

text \<open>
  With two slots, the three live allocations of \<open>three_live_state\<close> are freed in the
  order of their addresses: the first base is released, the other two are cached.
\<close>

theorem gzalloc_free_cache_fifo_witness:
  "\<exists>st' zr'. gzalloc_frees three_live_state 0x1000 0 [0x100010, 0x102010, 0x104010] = Inr st' \<and>
     zones st' 0x1000 = Some zr' \<and>
     released (arena_calls st') = [(0x100000, 8192)] \<and>
     rotate (unat (gzfc_index (gz zr'))) (gzfc (gz zr')) = [0x102000, 0x104000]"
proof -
  let ?st = three_live_state
  let ?addrs = "[0x100010, 0x102010, 0x104010] :: 64 word list"
  obtain st' where h1: "gzalloc_frees ?st 0x1000 0 ?addrs = Inr st'"
    by (simp add: free_defs Let_def three_live_state_fields three_live_state_headers
        tracked_zone_fields example_header_fields page_defs GZDEADZONE_def KERN_SUCCESS_def
        fill_scan.simps dfree_scan.simps word_le_one_iff)
  have h2: "zones ?st 0x1000 = Some tracked_zone"
    by (simp add: three_live_state_fields)
  have h3: "gzfc (gz tracked_zone) = replicate (unat (gzfc_size ?st)) 0"
  proof -
    have "unat (gzfc_size ?st) = Suc (Suc 0)" by (simp add: three_live_state_fields)
    then show ?thesis by (simp add: tracked_zone_fields)
  qed
  have h4: "gzfc_index (gz tracked_zone) = 0" by (simp add: tracked_zone_fields)
  have h5: "STARTUP_SUB_KMEM \<le> startup_phase ?st"
    by (simp add: three_live_state_fields)
  have h6: "\<forall>a \<in> set ?addrs.
      gzone (read_gzhdr (mem ?st) (free_gzh ?st tracked_zone a)) \<noteq> GZDEADZONE"
    by (simp add: three_live_state_fields three_live_state_headers free_gzh_def
        example_header_fields page_defs GZDEADZONE_def)
  have h7: "\<forall>a \<in> set ?addrs. free_saddr ?st tracked_zone a \<noteq> 0"
    by (simp add: three_live_state_fields tracked_zone_fields free_saddr_def page_defs)
  have h8: "length ?addrs = unat (gzfc_size ?st) + 1"
    by (simp add: three_live_state_fields)
  from gzalloc_free_cache_fifo [OF h1 h2 h3 h4 h5 h6 h7 h8] h1
  show ?thesis
    by (auto simp add: three_live_state_fields tracked_zone_fields free_saddr_def page_defs)
qed

end
